theory Spec2Isabelle
  imports Main "HOL-Library.AList"
begin

section \<open>Data model\<close>

text \<open>
  Errors are values. \<open>ErrRoomNotFound\<close> is the sentinel \<open>types.ErrRoomNotFound\<close> that the
  HTTP handlers test with \<open>errors.Is\<close>; \<open>Errorf\<close> is an error made by \<open>fmt.Errorf\<close> with a
  plain message (no \<open>%w\<close>, so it wraps nothing); \<open>ClientError\<close> is an error returned by the
  Docker client; \<open>EOF\<close> is \<open>io.EOF\<close>; \<open>DecodeError\<close> is any other error of the JSON decoder.
  \<open>InvalidSettings\<close>, \<open>PoolExhausted\<close> and \<open>PortConflict\<close> are kinds of the error taxonomy of the
  specification; among the definitions below only the manager modelled from the
  specification returns them.
\<close>

datatype error =
    ErrRoomNotFound
  | Errorf string
  | ClientError string
  | EOF
  | DecodeError string
  | InvalidSettings
  | PoolExhausted
  | PortConflict

type_synonym labels = "string \<rightharpoonup> string"

text \<open>\<open>config.Room\<close>, the configuration of the room manager.\<close>

record Room =
  NAT1To1IPs :: "string list"
  EphemeralMin :: nat
  EphemeralMax :: nat
  TraefikDomain :: string
  TraefikEntrypoint :: string
  TraefikCertresolver :: string
  TraefikNetwork :: string

text \<open>
  Modelled from the spec: the declarations of \<open>types.RoomResources\<close>, \<open>types.RoomSettings\<close>
  and \<open>types.RoomData\<close> are not among the sources. The fields are those of the data model
  of the specification (section 3). The settings: display name, image reference,
  \<open>MaxConnections\<close>, \<open>Resources\<close> (CPU shares, memory, \<open>ShmSize\<close>), network mode and a mapping
  of labels. The room data: the unit identifier, the settings, the \<open>Running\<close> flag and the
  assigned port range, a pair of a first and a last port. The sources name \<open>MaxConnections\<close>,
  \<open>Resources\<close>, \<open>ShmSize\<close>, \<open>ID\<close>, \<open>RoomSettings\<close> and \<open>Running\<close>; the other names are chosen
  here. The mapping of labels is an association list with one entry for each key.
\<close>

record RoomResources =
  CPUShares :: nat
  Memory :: nat
  ShmSize :: nat

record RoomSettings =
  Name :: string
  NekoImage :: string
  MaxConnections :: nat
  Resources :: RoomResources
  NetworkMode :: string
  RoomLabels :: "(string \<times> string) list"

record PortRange =
  portStart :: nat
  portEnd :: nat

record RoomData =
  ID :: string
  RoomSettings :: RoomSettings
  Running :: bool
  PortRange :: PortRange

text \<open>
  The zero values of Go for these structs: what a field has that a composite literal does
  not name.
\<close>

definition zeroResources :: RoomResources where
  "zeroResources = \<lparr>CPUShares = 0, Memory = 0, ShmSize = 0\<rparr>"

definition zeroSettings :: RoomSettings where
  "zeroSettings =
     \<lparr>Name = [], NekoImage = [], MaxConnections = 0, Resources = zeroResources,
      NetworkMode = [], RoomLabels = []\<rparr>"

definition zeroRange :: PortRange where
  "zeroRange = \<lparr>portStart = 0, portEnd = 0\<rparr>"

subsection \<open>What the manager sends to and reads from the Docker client\<close>

record PortBinding =
  HostIP :: string
  HostPort :: string

record Config =
  Hostname :: string
  Domainname :: string
  ExposedPorts :: "string list"
  Env :: "string list"
  Image :: string
  Labels :: labels

record HostConfig =
  PortBindings :: "(string \<times> PortBinding list) list"
  LogType :: string
  RestartPolicyName :: string
  CapAdd :: "string list"
  HostShmSize :: nat

record NetworkingConfig =
  EndpointsConfig :: "string list"

record RemoveOptions =
  RemoveVolumes :: bool
  Force :: bool

text \<open>A container as \<open>ContainerList\<close> reports it, and as \<open>ContainerInspectWithRaw\<close> does.\<close>

record Container =
  ContainerID :: string
  ContainerLabels :: labels

record ContainerJSON =
  JSONID :: string
  JSONLabels :: labels
  JSONRunning :: bool

text \<open>
  The Docker client is a collaborator: the manager only calls it. It is a record of
  operations on a runtime state \<open>'s\<close>, each returning its result and the state it leaves.
\<close>

record 's Client =
  ContainerList :: "'s \<Rightarrow> (error + Container list) \<times> 's"
  ContainerInspectWithRaw :: "string \<Rightarrow> 's \<Rightarrow> (error + ContainerJSON) \<times> 's"
  ContainerCreate ::
    "Config \<Rightarrow> HostConfig \<Rightarrow> NetworkingConfig \<Rightarrow> string \<Rightarrow> 's \<Rightarrow> (error + string) \<times> 's"
  ContainerStart :: "string \<Rightarrow> 's \<Rightarrow> error option \<times> 's"
  ContainerStop :: "string \<Rightarrow> 's \<Rightarrow> error option \<times> 's"
  ContainerRemove :: "string \<Rightarrow> RemoveOptions \<Rightarrow> 's \<Rightarrow> error option \<times> 's"

section \<open>The room manager\<close>

definition nekoImage :: string where
  "nekoImage = ''m1k1o/neko:latest''"

definition containerPrefix :: string where
  "containerPrefix = ''neko-room-''"

definition frontendPort :: nat where
  "frontendPort = 8080"

definition labelCanary :: string where
  "labelCanary = ''m1k1o-neko-rooms''"

definition canaryKey :: string where
  "canaryKey = ''m1k1o.neko_rooms.canary''"

text \<open>\<open>val, ok := labels[canaryKey]; !ok || val != labelCanary\<close> is the negation of this.\<close>

definition hasCanary :: "labels \<Rightarrow> bool" where
  "hasCanary ls = (case ls canaryKey of None \<Rightarrow> False | Some val \<Rightarrow> val = labelCanary)"

definition listContainers :: "'s Client \<Rightarrow> 's \<Rightarrow> (error + Container list) \<times> 's" where
  "listContainers client s =
     (case ContainerList client s of
        (Inl err, s') \<Rightarrow> (Inl err, s')
      | (Inr containers, s') \<Rightarrow>
          (Inr (filter (\<lambda>container. hasCanary (ContainerLabels container)) containers), s'))"

definition inspectContainer :: "'s Client \<Rightarrow> string \<Rightarrow> 's \<Rightarrow> (error + ContainerJSON) \<times> 's" where
  "inspectContainer client rid s =
     (case ContainerInspectWithRaw client rid s of
        (Inl err, s') \<Rightarrow> (Inl err, s')
      | (Inr container, s') \<Rightarrow>
          if \<not> hasCanary (JSONLabels container)
          then (Inl (Errorf ''This container does not belong to neko_rooms.''), s')
          else (Inr container, s'))"

definition List_rooms :: "'s Client \<Rightarrow> 's \<Rightarrow> (error + RoomData list) \<times> 's" where
  "List_rooms client s =
     (case listContainers client s of
        (Inl err, s') \<Rightarrow> (Inl err, s')
      | (Inr containers, s') \<Rightarrow>
          (Inr (map (\<lambda>container.
                  \<lparr>ID = ContainerID container, RoomSettings = zeroSettings, Running = False,
                   PortRange = zeroRange\<rparr>)
                containers), s'))"

definition Get :: "'s Client \<Rightarrow> string \<Rightarrow> 's \<Rightarrow> (error + RoomData) \<times> 's" where
  "Get client rid s =
     (case inspectContainer client rid s of
        (Inl err, s') \<Rightarrow> (Inl err, s')
      | (Inr _, s') \<Rightarrow>
          (Inr \<lparr>ID = rid, RoomSettings = zeroSettings, Running = False,
                PortRange = zeroRange\<rparr>, s'))"

definition Update :: "'s Client \<Rightarrow> string \<Rightarrow> RoomSettings \<Rightarrow> 's \<Rightarrow> error option \<times> 's" where
  "Update client rid settings s =
     (case inspectContainer client rid s of
        (Inl err, s') \<Rightarrow> (Some err, s')
      | (Inr _, s') \<Rightarrow> (None, s'))"

definition Remove :: "'s Client \<Rightarrow> string \<Rightarrow> 's \<Rightarrow> error option \<times> 's" where
  "Remove client rid s =
     (case inspectContainer client rid s of
        (Inl err, s1) \<Rightarrow> (Some err, s1)
      | (Inr _, s1) \<Rightarrow>
          (case ContainerStop client rid s1 of
             (Some err, s2) \<Rightarrow> (Some err, s2)
           | (None, s2) \<Rightarrow>
               ContainerRemove client rid \<lparr>RemoveVolumes = True, Force = True\<rparr> s2))"

subsection \<open>Create\<close>

text \<open>\<open>fmt.Sprintf("%d", n)\<close> for an unsigned \<open>n\<close>: the decimal digits.\<close>

definition digit :: "nat \<Rightarrow> char" where
  "digit d = ''0123456789'' ! d"

function showNat :: "nat \<Rightarrow> string" where
  "showNat n = (if n < 10 then [digit n] else showNat (n div 10) @ [digit (n mod 10)])"
  by pat_completeness auto
termination
  by (relation "measure (\<lambda>n. n)") auto

declare showNat.simps [simp del]

text \<open>
  Modelled from the spec: the method \<open>RoomSettings.Env\<close> is not among the sources. The
  specification lists what it encodes: the port range, one NAT announcement for each
  external address, and the connection limit.
\<close>

definition settingsEnv :: "RoomSettings \<Rightarrow> nat \<Rightarrow> nat \<Rightarrow> string list \<Rightarrow> string list" where
  "settingsEnv settings eprStart eprEnd nat1to1 =
     [''NEKO_EPR='' @ showNat eprStart @ ''-'' @ showNat eprEnd]
     @ map (\<lambda>ip. ''NEKO_NAT1TO1='' @ ip) nat1to1
     @ [''NEKO_MAX_CONNECTIONS='' @ showNat (MaxConnections settings)]"

text \<open>The local "configs" of \<open>Create\<close>.\<close>

definition pathName :: string where
  "pathName = ''foobar''"

definition eprStart :: nat where
  "eprStart = 52135"

definition eprEnd :: nat where
  "eprEnd = 52145"

definition containerName :: string where
  "containerName = containerPrefix @ pathName"

text \<open>The loop \<open>for port := eprStart; port <= eprEnd; port++\<close> visits these ports.\<close>

definition eprPorts :: "nat list" where
  "eprPorts = [eprStart ..< Suc eprEnd]"

definition portKey :: "nat \<Rightarrow> string" where
  "portKey port = showNat port @ ''/udp''"

definition portBindings :: "(string \<times> PortBinding list) list" where
  "portBindings =
     map (\<lambda>port. (portKey port, [\<lparr>HostIP = ''0.0.0.0'', HostPort = showNat port\<rparr>])) eprPorts"

definition exposedPorts :: "string list" where
  "exposedPorts = portKey frontendPort # map portKey eprPorts"

definition createLabels :: "Room \<Rightarrow> labels" where
  "createLabels config =
     (let labels = [
        ''m1k1o.neko_rooms.canary'' \<mapsto> labelCanary,
        ''m1k1o.neko_rooms.epr'' \<mapsto> showNat eprStart @ ''-'' @ showNat eprEnd,
        ''traefik.enable'' \<mapsto> ''true'',
        ''traefik.http.services.'' @ containerName @ ''-frontend.loadbalancer.server.port''
          \<mapsto> showNat frontendPort,
        ''traefik.http.routers.'' @ containerName @ ''.entrypoints''
          \<mapsto> TraefikEntrypoint config,
        ''traefik.http.routers.'' @ containerName @ ''.rule''
          \<mapsto> ''Host(`'' @ TraefikDomain config @ ''`) && PathPrefix(`/'' @ pathName @ ''`)'',
        ''traefik.http.middlewares.'' @ containerName @ ''-rdr.redirectregex.regex''
          \<mapsto> ''/'' @ pathName @ ''$$'',
        ''traefik.http.middlewares.'' @ containerName @ ''-rdr.redirectregex.replacement''
          \<mapsto> ''/'' @ pathName @ ''/'',
        ''traefik.http.middlewares.'' @ containerName @ ''-prf.stripprefix.prefixes''
          \<mapsto> ''/'' @ pathName @ ''/'',
        ''traefik.http.routers.'' @ containerName @ ''.middlewares''
          \<mapsto> containerName @ ''-rdr,'' @ containerName @ ''-prf'']
      in if TraefikCertresolver config \<noteq> []
         then labels(''traefik.http.routers.'' @ containerName @ ''.tls'' \<mapsto> ''true'',
                     ''traefik.http.routers.'' @ containerName @ ''.tls.certresolver''
                       \<mapsto> TraefikCertresolver config)
         else labels)"

definition createConfig :: "Room \<Rightarrow> RoomSettings \<Rightarrow> Config" where
  "createConfig config settings =
     \<lparr>Hostname = containerName,
      Domainname = containerName,
      ExposedPorts = exposedPorts,
      Env = (''NEKO_BIND='' @ showNat frontendPort)
            # settingsEnv settings eprStart eprEnd (NAT1To1IPs config),
      Image = nekoImage,
      Labels = createLabels config\<rparr>"

text \<open>\<open>ShmSize: 2 * 10e9\<close>: the constant \<open>10e9\<close> is \<open>10 * 10^9\<close>.\<close>

definition createHostConfig :: HostConfig where
  "createHostConfig =
     \<lparr>PortBindings = portBindings,
      LogType = ''json-file'',
      RestartPolicyName = ''always'',
      CapAdd = [''SYS_ADMIN''],
      HostShmSize = 2 * (10 * 10 ^ 9)\<rparr>"

definition createNetworkingConfig :: "Room \<Rightarrow> NetworkingConfig" where
  "createNetworkingConfig config = \<lparr>EndpointsConfig = [TraefikNetwork config]\<rparr>"

definition Create :: "'s Client \<Rightarrow> Room \<Rightarrow> RoomSettings \<Rightarrow> 's \<Rightarrow> (error + RoomData) \<times> 's" where
  "Create client config settings s =
     (case ContainerCreate client (createConfig config settings) createHostConfig
             (createNetworkingConfig config) containerName s of
        (Inl err, s1) \<Rightarrow> (Inl err, s1)
      | (Inr cont, s1) \<Rightarrow>
          (case ContainerStart client cont s1 of
             (Some err, s2) \<Rightarrow> (Inl err, s2)
           | (None, s2) \<Rightarrow>
               (Inr \<lparr>ID = cont, RoomSettings = settings, Running = False,
                     PortRange = zeroRange\<rparr>, s2)))"

section \<open>A reference model of the container runtime\<close>

text \<open>
  The theorems about the manager hold for every client. To run the manager on concrete
  inputs, this is the Docker engine as far as the manager can observe it: units with an
  id, a name, the configuration they were created with and a running flag, and a log of
  the client calls received. Names are unique; \<open>ContainerList\<close> with empty options reports
  running units only; starting a unit binds its host ports, which fails when a running
  unit holds one of them; starting a running unit and stopping a stopped one are no
  errors; \<open>ContainerRemove\<close> refuses a running unit unless forced.
\<close>

datatype call =
    CallList
  | CallInspect string
  | CallCreate string
  | CallStart string
  | CallStop string
  | CallRemove string

record unit_state =
  unitID :: string
  unitName :: string
  unitConfig :: Config
  unitHostConfig :: HostConfig
  unitRunning :: bool

record runtime =
  units :: "unit_state list"
  created :: nat
  calls :: "call list"

definition logCall :: "call \<Rightarrow> runtime \<Rightarrow> runtime" where
  "logCall c rt = rt\<lparr>calls := calls rt @ [c]\<rparr>"

definition refersTo :: "string \<Rightarrow> unit_state \<Rightarrow> bool" where
  "refersTo ref u = (unitID u = ref \<or> unitName u = ref)"

definition findUnit :: "string \<Rightarrow> runtime \<Rightarrow> unit_state option" where
  "findUnit ref rt = find (refersTo ref) (units rt)"

definition hostPorts :: "unit_state \<Rightarrow> string list" where
  "hostPorts u = concat (map (\<lambda>(_, bs). map HostPort bs) (PortBindings (unitHostConfig u)))"

definition portsTaken :: "unit_state \<Rightarrow> runtime \<Rightarrow> bool" where
  "portsTaken u rt =
     list_ex (\<lambda>other. unitRunning other \<and> unitID other \<noteq> unitID u
                \<and> list_ex (\<lambda>p. p \<in> set (hostPorts other)) (hostPorts u))
       (units rt)"

definition setRunning :: "string \<Rightarrow> bool \<Rightarrow> runtime \<Rightarrow> runtime" where
  "setRunning uid r rt =
     rt\<lparr>units := map (\<lambda>u. if unitID u = uid then u\<lparr>unitRunning := r\<rparr> else u) (units rt)\<rparr>"

definition noSuchContainer :: "string \<Rightarrow> error" where
  "noSuchContainer ref = ClientError (''Error: No such container: '' @ ref)"

definition dockerList :: "runtime \<Rightarrow> (error + Container list) \<times> runtime" where
  "dockerList rt =
     (Inr (map (\<lambda>u. \<lparr>ContainerID = unitID u, ContainerLabels = Labels (unitConfig u)\<rparr>)
             (filter unitRunning (units rt))),
      logCall CallList rt)"

definition dockerInspect :: "string \<Rightarrow> runtime \<Rightarrow> (error + ContainerJSON) \<times> runtime" where
  "dockerInspect ref rt =
     (case findUnit ref rt of
        None \<Rightarrow> (Inl (noSuchContainer ref), logCall (CallInspect ref) rt)
      | Some u \<Rightarrow>
          (Inr \<lparr>JSONID = unitID u, JSONLabels = Labels (unitConfig u),
                JSONRunning = unitRunning u\<rparr>,
           logCall (CallInspect ref) rt))"

definition dockerCreate ::
  "Config \<Rightarrow> HostConfig \<Rightarrow> NetworkingConfig \<Rightarrow> string \<Rightarrow> runtime \<Rightarrow> (error + string) \<times> runtime"
where
  "dockerCreate cfg host net name rt =
     (if list_ex (\<lambda>u. unitName u = name) (units rt)
      then (Inl (ClientError ''Conflict. The container name is already in use''),
            logCall (CallCreate name) rt)
      else
        (let uid = ''c'' @ showNat (created rt)
         in (Inr uid,
             logCall (CallCreate name)
               (rt\<lparr>units := units rt @
                       [\<lparr>unitID = uid, unitName = name, unitConfig = cfg,
                         unitHostConfig = host, unitRunning = False\<rparr>],
                    created := Suc (created rt)\<rparr>))))"

definition dockerStart :: "string \<Rightarrow> runtime \<Rightarrow> error option \<times> runtime" where
  "dockerStart ref rt =
     (case findUnit ref rt of
        None \<Rightarrow> (Some (noSuchContainer ref), logCall (CallStart ref) rt)
      | Some u \<Rightarrow>
          if unitRunning u then (None, logCall (CallStart ref) rt)
          else if portsTaken u rt
          then (Some (ClientError ''port is already allocated''), logCall (CallStart ref) rt)
          else (None, logCall (CallStart ref) (setRunning (unitID u) True rt)))"

definition dockerStop :: "string \<Rightarrow> runtime \<Rightarrow> error option \<times> runtime" where
  "dockerStop ref rt =
     (case findUnit ref rt of
        None \<Rightarrow> (Some (noSuchContainer ref), logCall (CallStop ref) rt)
      | Some u \<Rightarrow> (None, logCall (CallStop ref) (setRunning (unitID u) False rt)))"

definition dockerRemove :: "string \<Rightarrow> RemoveOptions \<Rightarrow> runtime \<Rightarrow> error option \<times> runtime" where
  "dockerRemove ref opts rt =
     (case findUnit ref rt of
        None \<Rightarrow> (Some (noSuchContainer ref), logCall (CallRemove ref) rt)
      | Some u \<Rightarrow>
          if unitRunning u \<and> \<not> Force opts
          then (Some (ClientError ''cannot remove a running container''),
                logCall (CallRemove ref) rt)
          else (None,
                logCall (CallRemove ref)
                  (rt\<lparr>units := filter (\<lambda>v. unitID v \<noteq> unitID u) (units rt)\<rparr>)))"

definition docker :: "runtime Client" where
  "docker =
     \<lparr>ContainerList = dockerList,
      ContainerInspectWithRaw = dockerInspect,
      ContainerCreate = dockerCreate,
      ContainerStart = dockerStart,
      ContainerStop = dockerStop,
      ContainerRemove = dockerRemove\<rparr>"

definition emptyRuntime :: runtime where
  "emptyRuntime = \<lparr>units = [], created = 0, calls = []\<rparr>"

section \<open>The HTTP handlers\<close>

text \<open>
  The handlers call the room manager through the interface \<open>manager.rooms\<close>. As for the
  client, it is a record of operations on a state; the handlers are defined for every
  such record.
\<close>

record 's RoomManager =
  rooms_List :: "(string \<times> string) list \<Rightarrow> 's \<Rightarrow> (error + RoomData list) \<times> 's"
  rooms_Create :: "RoomSettings \<Rightarrow> 's \<Rightarrow> (error + string) \<times> 's"
  rooms_Start :: "string \<Rightarrow> 's \<Rightarrow> error option \<times> 's"
  rooms_GetEntry :: "string \<Rightarrow> 's \<Rightarrow> (error + RoomData) \<times> 's"
  rooms_GetSettings :: "string \<Rightarrow> 's \<Rightarrow> (error + RoomSettings) \<times> 's"
  rooms_Remove :: "string \<Rightarrow> 's \<Rightarrow> error option \<times> 's"

text \<open>
  What a handler writes: \<open>http.Error\<close> with a status and a message, a JSON document
  (status 200), status 204 with no content, or nothing because the handler panicked.
\<close>

datatype 'a response =
    HttpError nat string
  | Json 'a
  | NoContent
  | Panic

text \<open>
  \<open>err.Error()\<close>. The text of \<open>types.ErrRoomNotFound\<close> is not among the sources, and the
  specification gives no text for its error kinds; no statement below depends on these
  texts.
\<close>

fun errorText :: "error \<Rightarrow> string" where
  "errorText ErrRoomNotFound = ''room not found''"
| "errorText (Errorf msg) = msg"
| "errorText (ClientError msg) = msg"
| "errorText EOF = ''EOF''"
| "errorText (DecodeError msg) = msg"
| "errorText InvalidSettings = ''invalid settings''"
| "errorText PoolExhausted = ''port pool exhausted''"
| "errorText PortConflict = ''port conflict''"

text \<open>
  The branch \<open>if errors.Is(err, types.ErrRoomNotFound) { 404 } else { 500 }\<close>. None of the
  errors of the model wraps another, so \<open>errors.Is\<close> is equality with the sentinel.
\<close>

definition notFoundOr500 :: "error \<Rightarrow> 'a response" where
  "notFoundOr500 err =
     (if err = ErrRoomNotFound then HttpError 404 (errorText err)
      else HttpError 500 (errorText err))"

subsection \<open>Request bodies\<close>

text \<open>
  A request body as \<open>json.NewDecoder(r.Body).Decode\<close> sees it: no input at all (the decoder
  returns \<open>io.EOF\<close>), input it rejects with another error (a syntax error, a value of the
  wrong type), the JSON value \<open>null\<close>, or a JSON object. An object names some of the fields
  of the settings; the decoder assigns these and leaves every other field of the target
  struct as it was, a nested struct field by field. A map is decoded entry by entry: the
  entries that the object names are stored, the other entries of the target are kept.
\<close>

record ResourcesPatch =
  patchCPUShares :: "nat option"
  patchMemory :: "nat option"
  patchShmSize :: "nat option"

record SettingsPatch =
  patchName :: "string option"
  patchNekoImage :: "string option"
  patchMaxConnections :: "nat option"
  patchResources :: "ResourcesPatch option"
  patchNetworkMode :: "string option"
  patchLabels :: "(string \<times> string) list option"

datatype body =
    EmptyBody
  | InvalidBody string
  | NullBody
  | ObjectBody SettingsPatch

definition assign :: "'a option \<Rightarrow> 'a \<Rightarrow> 'a" where
  "assign new old = (case new of None \<Rightarrow> old | Some v \<Rightarrow> v)"

definition decodeResources :: "ResourcesPatch \<Rightarrow> RoomResources \<Rightarrow> RoomResources" where
  "decodeResources p r =
     \<lparr>CPUShares = assign (patchCPUShares p) (CPUShares r),
      Memory = assign (patchMemory p) (Memory r),
      ShmSize = assign (patchShmSize p) (ShmSize r)\<rparr>"

definition decodeSettings :: "SettingsPatch \<Rightarrow> RoomSettings \<Rightarrow> RoomSettings" where
  "decodeSettings p st =
     \<lparr>Name = assign (patchName p) (Name st),
      NekoImage = assign (patchNekoImage p) (NekoImage st),
      MaxConnections = assign (patchMaxConnections p) (MaxConnections st),
      Resources = (case patchResources p of
                     None \<Rightarrow> Resources st
                   | Some rp \<Rightarrow> decodeResources rp (Resources st)),
      NetworkMode = assign (patchNetworkMode p) (NetworkMode st),
      RoomLabels = (case patchLabels p of
                      None \<Rightarrow> RoomLabels st
                    | Some ls \<Rightarrow> AList.merge (RoomLabels st) ls)\<rparr>"

text \<open>
  \<open>Decode(&request)\<close> with \<open>request\<close> a struct: \<open>null\<close> leaves the struct as it is.
\<close>

fun DecodeStruct :: "body \<Rightarrow> RoomSettings \<Rightarrow> error option \<times> RoomSettings" where
  "DecodeStruct EmptyBody request = (Some EOF, request)"
| "DecodeStruct (InvalidBody msg) request = (Some (DecodeError msg), request)"
| "DecodeStruct NullBody request = (None, request)"
| "DecodeStruct (ObjectBody p) request = (None, decodeSettings p request)"

text \<open>
  \<open>Decode(&settings)\<close> with \<open>settings\<close> a pointer to a struct (\<open>None\<close> is the nil pointer):
  \<open>null\<close> sets the pointer to nil, an object is decoded into the struct it points to.
\<close>

fun DecodePointer :: "body \<Rightarrow> RoomSettings option \<Rightarrow> error option \<times> RoomSettings option" where
  "DecodePointer EmptyBody settings = (Some EOF, settings)"
| "DecodePointer (InvalidBody msg) settings = (Some (DecodeError msg), settings)"
| "DecodePointer NullBody settings = (None, None)"
| "DecodePointer (ObjectBody p) settings =
     (None, Some (decodeSettings p (case settings of None \<Rightarrow> zeroSettings | Some st \<Rightarrow> st)))"

subsection \<open>GET /rooms\<close>

text \<open>
  \<open>strings.ToLower\<close>. A string is a sequence of bytes. When every byte is ASCII, the
  library maps the string byte by byte, \<open>'A' <= c && c <= 'Z'\<close> to \<open>c + 'a' - 'A'\<close>. Any other
  string it hands to \<open>strings.Map(unicode.ToLower, s)\<close>, which decodes the runes and maps
  them by the case tables of the Unicode library. These tables are not reproduced:
  \<open>mapUnicode\<close> stands for that function, and the handler below is defined, and every
  statement about it proved, for every such function.
\<close>

definition upperChar :: "char \<Rightarrow> bool" where
  "upperChar c = (let n = (of_char c :: nat) in 65 \<le> n \<and> n \<le> 90)"

definition lowerChar :: "char \<Rightarrow> char" where
  "lowerChar c = (if upperChar c then char_of ((of_char c :: nat) + 32) else c)"

definition isASCII :: "string \<Rightarrow> bool" where
  "isASCII key = list_all (\<lambda>c. (of_char c :: nat) < 128) key"

definition ToLower :: "(string \<Rightarrow> string) \<Rightarrow> string \<Rightarrow> string" where
  "ToLower mapUnicode key = (if isASCII key then map lowerChar key else mapUnicode key)"

text \<open>
  Modelled from the spec: the validator \<open>room.CheckLabelKey\<close> is not among the sources. The
  specification restricts label keys to the characters \<open>[a-z0-9.-]\<close>.
\<close>

definition labelChar :: "char \<Rightarrow> bool" where
  "labelChar c =
     (let n = (of_char c :: nat)
      in (97 \<le> n \<and> n \<le> 122) \<or> (48 \<le> n \<and> n \<le> 57) \<or> c = CHR ''.'' \<or> c = CHR ''-'')"

definition CheckLabelKey :: "string \<Rightarrow> bool" where
  "CheckLabelKey key = list_all labelChar key"

definition invalidLabelName :: string where
  "invalidLabelName = ''invalid label name, allowed characters: [a-z0-9.-]''"

text \<open>
  The loop over \<open>r.URL.Query()\<close>, a map from keys to lists of values; the list gives the
  keys in the order the iteration visits them. \<open>value[0]\<close> panics on an empty list. The
  map \<open>labelsMap\<close> is an association list with one entry for each key.
\<close>

fun queryLabels ::
  "(string \<Rightarrow> string) \<Rightarrow> (string \<times> string list) list \<Rightarrow> (string \<times> string) list
     \<Rightarrow> 'a response + (string \<times> string) list"
where
  "queryLabels mapUnicode [] labelsMap = Inr labelsMap"
| "queryLabels mapUnicode ((key, val) # rest) labelsMap =
     (let key = ToLower mapUnicode key
      in if \<not> CheckLabelKey key then Inl (HttpError 400 invalidLabelName)
         else (case val of
                 [] \<Rightarrow> Inl Panic
               | v # _ \<Rightarrow> queryLabels mapUnicode rest (AList.update key v labelsMap)))"

definition roomsList ::
  "(string \<Rightarrow> string) \<Rightarrow> 's RoomManager \<Rightarrow> (string \<times> string list) list \<Rightarrow> 's
     \<Rightarrow> RoomData list response \<times> 's"
where
  "roomsList mapUnicode manager query s =
     (case queryLabels mapUnicode query [] of
        Inl failed \<Rightarrow> (failed, s)
      | Inr labelsMap \<Rightarrow>
          (case rooms_List manager labelsMap s of
             (Inl err, s') \<Rightarrow> (HttpError 500 (errorText err), s')
           | (Inr response, s') \<Rightarrow> (Json response, s')))"

subsection \<open>POST /rooms\<close>

definition defaultRequest :: RoomSettings where
  "defaultRequest =
     \<lparr>Name = [], NekoImage = [], MaxConnections = 10,
      Resources = \<lparr>CPUShares = 0, Memory = 0, ShmSize = 2 * 10 ^ 9\<rparr>,
      NetworkMode = [], RoomLabels = []\<rparr>"

definition roomCreate :: "'s RoomManager \<Rightarrow> body \<Rightarrow> 's \<Rightarrow> RoomData response \<times> 's" where
  "roomCreate manager body s =
     (case DecodeStruct body defaultRequest of
        (Some err, _) \<Rightarrow> (HttpError 400 (errorText err), s)
      | (None, request) \<Rightarrow>
          (case rooms_Create manager request s of
             (Inl err, s1) \<Rightarrow> (HttpError 500 (errorText err), s1)
           | (Inr newID, s1) \<Rightarrow>
               (case rooms_Start manager newID s1 of
                  (Some err, s2) \<Rightarrow> (HttpError 500 (errorText err), s2)
                | (None, s2) \<Rightarrow>
                    (case rooms_GetEntry manager newID s2 of
                       (Inl err, s3) \<Rightarrow> (HttpError 500 (errorText err), s3)
                     | (Inr response, s3) \<Rightarrow> (Json response, s3)))))"

subsection \<open>POST /rooms/{id}/recreate\<close>

text \<open>
  The steps of \<open>roomRecreate\<close> after the body is decoded: remove the room, create one with
  the settings (dereferencing the nil pointer panics), start it if the entry read at the
  beginning was running, and read the new entry.
\<close>

definition recreate ::
  "'s RoomManager \<Rightarrow> RoomData \<Rightarrow> string \<Rightarrow> RoomSettings option \<Rightarrow> 's \<Rightarrow> RoomData response \<times> 's"
where
  "recreate manager entry roomId settings s =
     (case rooms_Remove manager roomId s of
        (Some err, s1) \<Rightarrow> (HttpError 500 (errorText err), s1)
      | (None, s1) \<Rightarrow>
          (case settings of
             None \<Rightarrow> (Panic, s1)
           | Some st \<Rightarrow>
               (case rooms_Create manager st s1 of
                  (Inl err, s2) \<Rightarrow> (HttpError 500 (errorText err), s2)
                | (Inr newID, s2) \<Rightarrow>
                    (case (if Running entry then rooms_Start manager newID s2 else (None, s2)) of
                       (Some err, s3) \<Rightarrow> (HttpError 500 (errorText err), s3)
                     | (None, s3) \<Rightarrow>
                         (case rooms_GetEntry manager newID s3 of
                            (Inl err, s4) \<Rightarrow> (HttpError 500 (errorText err), s4)
                          | (Inr response, s4) \<Rightarrow> (Json response, s4))))))"

definition roomRecreate ::
  "'s RoomManager \<Rightarrow> string \<Rightarrow> body \<Rightarrow> 's \<Rightarrow> RoomData response \<times> 's"
where
  "roomRecreate manager roomId body s =
     (case rooms_GetEntry manager roomId s of
        (Inl err, s1) \<Rightarrow> (notFoundOr500 err, s1)
      | (Inr entry, s1) \<Rightarrow>
          (case rooms_GetSettings manager roomId s1 of
             (Inl err, s2) \<Rightarrow> (HttpError 500 (errorText err), s2)
           | (Inr stored, s2) \<Rightarrow>
               (case DecodePointer body (Some stored) of
                  (Some err, settings) \<Rightarrow>
                    if err \<noteq> EOF then (HttpError 400 (errorText err), s2)
                    else recreate manager entry roomId settings s2
                | (None, settings) \<Rightarrow> recreate manager entry roomId settings s2)))"

subsection \<open>GET /rooms/{id}, its settings and statistics, and the generic action\<close>

definition roomGetEntry :: "'s RoomManager \<Rightarrow> string \<Rightarrow> 's \<Rightarrow> RoomData response \<times> 's" where
  "roomGetEntry manager roomId s =
     (case rooms_GetEntry manager roomId s of
        (Inl err, s') \<Rightarrow> (notFoundOr500 err, s')
      | (Inr response, s') \<Rightarrow> (Json response, s'))"

definition roomGetSettings ::
  "'s RoomManager \<Rightarrow> string \<Rightarrow> 's \<Rightarrow> RoomSettings response \<times> 's"
where
  "roomGetSettings manager roomId s =
     (case rooms_GetSettings manager roomId s of
        (Inl err, s') \<Rightarrow> (notFoundOr500 err, s')
      | (Inr response, s') \<Rightarrow> (Json response, s'))"

text \<open>
  The type of the statistics that \<open>manager.rooms.GetStats\<close> returns is not among the
  sources and the specification does not describe it: the handler takes the operation as
  an argument and is defined for every type of statistics. The same holds for the action
  of the generic handler.
\<close>

definition roomGetStats ::
  "(string \<Rightarrow> 's \<Rightarrow> (error + 'stats) \<times> 's) \<Rightarrow> string \<Rightarrow> 's \<Rightarrow> 'stats response \<times> 's"
where
  "roomGetStats GetStats roomId s =
     (case GetStats roomId s of
        (Inl err, s') \<Rightarrow> (notFoundOr500 err, s')
      | (Inr response, s') \<Rightarrow> (Json response, s'))"

definition roomGenericAction ::
  "(string \<Rightarrow> 's \<Rightarrow> error option \<times> 's) \<Rightarrow> string \<Rightarrow> 's \<Rightarrow> unit response \<times> 's"
where
  "roomGenericAction action roomId s =
     (case action roomId s of
        (Some err, s') \<Rightarrow> (notFoundOr500 err, s')
      | (None, s') \<Rightarrow> (NoContent, s'))"

section \<open>The room manager behind the handlers\<close>

text \<open>
  Modelled from the spec: the manager that the handlers call is not among the sources (its
  \<open>Create\<close> returns the id of the new room, its \<open>List\<close> takes a label filter, and it has
  \<open>Start\<close>, \<open>GetEntry\<close> and \<open>GetSettings\<close>; the manager above is an earlier one with another
  interface). What follows is the lifecycle orchestrator of the specification (sections
  4.2, 4.3 and 4.5) over the owned rooms that the runtime holds, each with the settings
  that produced it, its running flag and its port range. The units of other tenants are
  invisible to every operation (section 3) and are not part of the state, so that an
  operation finds an id only if it is the id of an owned room.
\<close>

record owned_room =
  roomID :: string
  roomSettings :: RoomSettings
  roomRunning :: bool
  roomPorts :: PortRange

record engine =
  rooms :: "owned_room list"
  counter :: nat

text \<open>
  Modelled from the spec: the lookup of an owned room by its id, and the room data that a
  read builds from a room (section 3).
\<close>

definition findRoom :: "string \<Rightarrow> engine \<Rightarrow> owned_room option" where
  "findRoom rid e = find (\<lambda>r. roomID r = rid) (rooms e)"

definition roomEntry :: "owned_room \<Rightarrow> RoomData" where
  "roomEntry r =
     \<lparr>ID = roomID r, RoomSettings = roomSettings r, Running = roomRunning r,
      PortRange = roomPorts r\<rparr>"

text \<open>
  Modelled from the spec: \<open>Allocate\<close> (section 4.2) returns the first range of the
  requested width, by lowest start port, that lies in the pool and none of whose ports is
  claimed by a running room, and fails with \<open>PoolExhausted\<close> when there is none. The width
  is positive. \<open>overlaps\<close>, \<open>rangeAt\<close> and \<open>freeAt\<close> spell this out.
\<close>

definition overlaps :: "PortRange \<Rightarrow> PortRange \<Rightarrow> bool" where
  "overlaps a b = (portStart a \<le> portEnd b \<and> portStart b \<le> portEnd a)"

definition rangeAt :: "nat \<Rightarrow> nat \<Rightarrow> PortRange" where
  "rangeAt start width = \<lparr>portStart = start, portEnd = start + width - 1\<rparr>"

definition freeAt :: "Room \<Rightarrow> nat \<Rightarrow> engine \<Rightarrow> nat \<Rightarrow> bool" where
  "freeAt config width e start =
     (start + width \<le> Suc (EphemeralMax config)
      \<and> \<not> list_ex (\<lambda>r. roomRunning r \<and> overlaps (rangeAt start width) (roomPorts r)) (rooms e))"

definition Allocate :: "Room \<Rightarrow> nat \<Rightarrow> engine \<Rightarrow> error + PortRange" where
  "Allocate config width e =
     (case find (freeAt config width e) [EphemeralMin config ..< Suc (EphemeralMax config)] of
        None \<Rightarrow> Inl PoolExhausted
      | Some start \<Rightarrow> Inr (rangeAt start width))"

text \<open>
  Modelled from the spec: \<open>Create\<close> (section 4.5) validates the settings, whose label keys
  must pass the validator (section 3), allocates the ports and requests the unit; it does
  not start it. The specification does not say which width \<open>Create\<close> requests: it is a
  parameter. The id of the new unit is the runtime's choice; here the units are numbered.
\<close>

definition engineCreate ::
  "Room \<Rightarrow> nat \<Rightarrow> RoomSettings \<Rightarrow> engine \<Rightarrow> (error + string) \<times> engine"
where
  "engineCreate config width settings e =
     (if \<not> list_all (\<lambda>(key, _). CheckLabelKey key) (RoomLabels settings)
      then (Inl InvalidSettings, e)
      else (case Allocate config width e of
              Inl err \<Rightarrow> (Inl err, e)
            | Inr ports \<Rightarrow>
                (let newID = ''c'' @ showNat (counter e)
                 in (Inr newID,
                     e\<lparr>rooms := rooms e @
                          [\<lparr>roomID = newID, roomSettings = settings, roomRunning = False,
                            roomPorts = ports\<rparr>],
                       counter := Suc (counter e)\<rparr>))))"

text \<open>
  Modelled from the spec: \<open>Start\<close> (section 4.5) requires the room to exist and to be
  owned, and starting a running room is no error. A room that runs has its ports bound:
  when a running room holds a port of the room to start, the runtime refuses, which is
  the failure \<open>PortConflict\<close> (sections 4.2 and 7).
\<close>

definition engineStart :: "string \<Rightarrow> engine \<Rightarrow> error option \<times> engine" where
  "engineStart rid e =
     (case findRoom rid e of
        None \<Rightarrow> (Some ErrRoomNotFound, e)
      | Some r \<Rightarrow>
          if roomRunning r then (None, e)
          else if list_ex (\<lambda>other. roomRunning other \<and> overlaps (roomPorts r) (roomPorts other))
                    (rooms e)
          then (Some PortConflict, e)
          else (None,
                e\<lparr>rooms := map (\<lambda>x. if roomID x = rid then x\<lparr>roomRunning := True\<rparr> else x)
                               (rooms e)\<rparr>))"

text \<open>
  Modelled from the spec: \<open>GetEntry\<close> and \<open>GetSettings\<close> (sections 3 and 4.5) are read-only;
  they return the room data and the settings that produced the room, and fail with
  \<open>NotFound\<close> when the id is unowned or absent.
\<close>

definition engineGetEntry :: "string \<Rightarrow> engine \<Rightarrow> (error + RoomData) \<times> engine" where
  "engineGetEntry rid e =
     (case findRoom rid e of
        None \<Rightarrow> (Inl ErrRoomNotFound, e)
      | Some r \<Rightarrow> (Inr (roomEntry r), e))"

definition engineGetSettings :: "string \<Rightarrow> engine \<Rightarrow> (error + RoomSettings) \<times> engine" where
  "engineGetSettings rid e =
     (case findRoom rid e of
        None \<Rightarrow> (Inl ErrRoomNotFound, e)
      | Some r \<Rightarrow> (Inr (roomSettings r), e))"

text \<open>
  Modelled from the spec: of \<open>GetStats\<close> the specification (section 4.5) says only that
  it is read-only and fails with \<open>NotFound\<close> when the id is unowned or absent; the
  statistics themselves are left out.
\<close>

definition engineGetStats :: "string \<Rightarrow> engine \<Rightarrow> (error + unit) \<times> engine" where
  "engineGetStats rid e =
     (case findRoom rid e of
        None \<Rightarrow> (Inl ErrRoomNotFound, e)
      | Some r \<Rightarrow> (Inr (), e))"

text \<open>
  Modelled from the spec: \<open>Remove\<close> (section 4.5) stops the room if it is running and
  deletes it; removing an absent or unowned id fails with \<open>NotFound\<close>.
\<close>

definition engineRemove :: "string \<Rightarrow> engine \<Rightarrow> error option \<times> engine" where
  "engineRemove rid e =
     (case findRoom rid e of
        None \<Rightarrow> (Some ErrRoomNotFound, e)
      | Some r \<Rightarrow> (None, e\<lparr>rooms := filter (\<lambda>x. roomID x \<noteq> rid) (rooms e)\<rparr>))"

text \<open>
  Modelled from the spec: \<open>List\<close> (section 4.3) returns the owned rooms whose labels have,
  for each key of the filter, exactly the value that the filter gives.
\<close>

definition matchesLabels :: "(string \<times> string) list \<Rightarrow> (string \<times> string) list \<Rightarrow> bool" where
  "matchesLabels labelsMap ls = list_all (\<lambda>(key, v). map_of ls key = Some v) labelsMap"

definition engineList ::
  "(string \<times> string) list \<Rightarrow> engine \<Rightarrow> (error + RoomData list) \<times> engine"
where
  "engineList labelsMap e =
     (Inr (map roomEntry
             (filter (\<lambda>r. matchesLabels labelsMap (RoomLabels (roomSettings r))) (rooms e))),
      e)"

text \<open>
  Modelled from the spec: these operations as the manager that the handlers call.
\<close>

definition engineManager :: "Room \<Rightarrow> nat \<Rightarrow> engine RoomManager" where
  "engineManager config width =
     \<lparr>rooms_List = engineList,
      rooms_Create = engineCreate config width,
      rooms_Start = engineStart,
      rooms_GetEntry = engineGetEntry,
      rooms_GetSettings = engineGetSettings,
      rooms_Remove = engineRemove\<rparr>"

section \<open>Concrete inputs\<close>

text \<open>The configuration that \<open>Room.Set\<close> yields from the defaults it starts with.\<close>

definition defaultConfig :: Room where
  "defaultConfig =
     \<lparr>NAT1To1IPs = [''10.0.0.1''],
      EphemeralMin = 59000,
      EphemeralMax = 59999,
      TraefikDomain = ''neko.lan'',
      TraefikEntrypoint = ''web-secure'',
      TraefikCertresolver = ''lets-encrypt'',
      TraefikNetwork = ''traefik''\<rparr>"

text \<open>
  A room as \<open>Create\<close> leaves it in the runtime (running or stopped later on), a unit of
  another tenant of the same runtime, which has no labels, and a room under another name
  that holds the port range of \<open>Create\<close>.
\<close>

definition ownedUnit :: "bool \<Rightarrow> unit_state" where
  "ownedUnit running =
     \<lparr>unitID = ''r1'', unitName = containerName,
      unitConfig = createConfig defaultConfig defaultRequest,
      unitHostConfig = createHostConfig, unitRunning = running\<rparr>"

definition foreignUnit :: unit_state where
  "foreignUnit =
     \<lparr>unitID = ''f1'', unitName = ''postgres'',
      unitConfig = \<lparr>Hostname = ''db'', Domainname = [], ExposedPorts = [], Env = [],
                    Image = ''postgres:16'', Labels = Map.empty\<rparr>,
      unitHostConfig = \<lparr>PortBindings = [], LogType = ''json-file'',
                        RestartPolicyName = ''no'', CapAdd = [], HostShmSize = 0\<rparr>,
      unitRunning = True\<rparr>"

definition otherRoom :: unit_state where
  "otherRoom = (ownedUnit True)\<lparr>unitID := ''r2'', unitName := ''neko-room-other''\<rparr>"

definition runtimeOf :: "unit_state list \<Rightarrow> runtime" where
  "runtimeOf us = \<lparr>units = us, created = 0, calls = []\<rparr>"

text \<open>
  A room of the manager behind the handlers: the stored settings of the example of the
  specification, \<open>MaxConnections\<close> 10 and \<open>ShmSize\<close> 2 * 10^9, with values in the other fields
  too, and the first eleven ports of the pool; and a second room with another name,
  another value of the label \<open>app\<close> and the next eleven ports.
\<close>

definition lobbySettings :: RoomSettings where
  "lobbySettings =
     \<lparr>Name = ''lobby'', NekoImage = ''m1k1o/neko:firefox'', MaxConnections = 10,
      Resources = \<lparr>CPUShares = 512, Memory = 1000000000, ShmSize = 2000000000\<rparr>,
      NetworkMode = ''bridge'', RoomLabels = [(''app'', ''neko'')]\<rparr>"

definition lobby :: "bool \<Rightarrow> owned_room" where
  "lobby running =
     \<lparr>roomID = ''r1'', roomSettings = lobbySettings, roomRunning = running,
      roomPorts = \<lparr>portStart = 59000, portEnd = 59010\<rparr>\<rparr>"

definition arcade :: owned_room where
  "arcade =
     \<lparr>roomID = ''r2'',
      roomSettings = lobbySettings\<lparr>Name := ''arcade'', RoomLabels := [(''app'', ''arcade'')]\<rparr>,
      roomRunning = True,
      roomPorts = \<lparr>portStart = 59011, portEnd = 59021\<rparr>\<rparr>"

definition engineOf :: "owned_room list \<Rightarrow> engine" where
  "engineOf rs = \<lparr>rooms = rs, counter = 0\<rparr>"

text \<open>
  Request bodies: \<open>{"MaxConnections": 20}\<close>; an object that names every field but
  \<open>MaxConnections\<close>, and of the resources the CPU shares and the shared-memory size; and an
  object that names of the resources the memory only.
\<close>

definition maxConnections20 :: SettingsPatch where
  "maxConnections20 =
     \<lparr>patchName = None, patchNekoImage = None, patchMaxConnections = Some 20,
      patchResources = None, patchNetworkMode = None, patchLabels = None\<rparr>"

definition renamedBody :: SettingsPatch where
  "renamedBody =
     \<lparr>patchName = Some ''arcade'', patchNekoImage = Some ''m1k1o/neko:chromium'',
      patchMaxConnections = None,
      patchResources =
        Some \<lparr>patchCPUShares = Some 1024, patchMemory = None, patchShmSize = Some 1000000000\<rparr>,
      patchNetworkMode = Some ''host'',
      patchLabels = Some [(''team'', ''blue'')]\<rparr>"

definition memoryBody :: SettingsPatch where
  "memoryBody =
     \<lparr>patchName = None, patchNekoImage = None, patchMaxConnections = None,
      patchResources =
        Some \<lparr>patchCPUShares = None, patchMemory = Some 500000000, patchShmSize = None\<rparr>,
      patchNetworkMode = None, patchLabels = None\<rparr>"

section \<open>Evaluation lemmas\<close>

lemma showNat_values [simp]:
  "showNat 52135 = ''52135''" "showNat 52145 = ''52145''" "showNat 8080 = ''8080''"
  by (simp_all add: showNat.simps digit_def)

lemma hasCanary_createLabels [simp]: "hasCanary (createLabels config)"
  by (simp add: hasCanary_def createLabels_def canaryKey_def Let_def)

lemma hasCanary_empty [simp]: "\<not> hasCanary Map.empty"
  by (simp add: hasCanary_def)

lemma inspect_owned:
  "dockerInspect ''r1'' (runtimeOf [ownedUnit b]) =
     (Inr \<lparr>JSONID = ''r1'', JSONLabels = createLabels defaultConfig, JSONRunning = b\<rparr>,
      logCall (CallInspect ''r1'') (runtimeOf [ownedUnit b]))"
  by (simp add: dockerInspect_def findUnit_def runtimeOf_def ownedUnit_def refersTo_def
      createConfig_def)

section \<open>Update\<close>

text \<open>
  Claim C10. For every owned unit id and every settings value, \<open>Update\<close> returns no error
  and leaves the unit as it is: whatever the client, the state after \<open>Update\<close> is the state
  that the one inspection call left, so no other client call was made, and the result does
  not depend on the settings.
\<close>

theorem Update_owned_only_inspects:
  assumes "ContainerInspectWithRaw client rid s = (Inr container, s')"
    and "hasCanary (JSONLabels container)"
  shows "Update client rid settings s = (None, s')"
  using assms by (simp add: Update_def inspectContainer_def)

text \<open>
  On the reference runtime holding one running room, \<open>Update\<close> succeeds, the only call it
  logs is the inspection, and the unit is as before.
\<close>

theorem Update_owned_only_inspects_witness:
  "Update docker ''r1'' defaultRequest (runtimeOf [ownedUnit True])
     = (None, \<lparr>units = [ownedUnit True], created = 0, calls = [CallInspect ''r1'']\<rparr>)"
proof -
  have inspected: "ContainerInspectWithRaw docker ''r1'' (runtimeOf [ownedUnit True]) =
     (Inr \<lparr>JSONID = ''r1'', JSONLabels = createLabels defaultConfig, JSONRunning = True\<rparr>,
      logCall (CallInspect ''r1'') (runtimeOf [ownedUnit True]))"
    by (simp add: docker_def inspect_owned)
  have owned: "hasCanary (JSONLabels
      \<lparr>JSONID = ''r1'', JSONLabels = createLabels defaultConfig, JSONRunning = True\<rparr>)"
    by simp
  from Update_owned_only_inspects [OF inspected owned, of defaultRequest]
  show ?thesis by (simp add: logCall_def runtimeOf_def)
qed

lemma showNat_small [simp]: "showNat 0 = ''0''" "showNat 10 = ''10''" "showNat 20 = ''20''"
  by (simp_all add: showNat.simps digit_def)

lemma Create_on_empty:
  "Create docker defaultConfig settings emptyRuntime =
     (Inr \<lparr>ID = ''c0'', RoomSettings = settings, Running = False, PortRange = zeroRange\<rparr>,
      \<lparr>units = [\<lparr>unitID = ''c0'', unitName = containerName,
                  unitConfig = createConfig defaultConfig settings,
                  unitHostConfig = createHostConfig, unitRunning = True\<rparr>],
       created = 1,
       calls = [CallCreate containerName, CallStart ''c0'']\<rparr>)"
  by (simp add: Create_def docker_def dockerCreate_def dockerStart_def emptyRuntime_def
      logCall_def findUnit_def refersTo_def portsTaken_def setRunning_def Let_def)

lemma inspect_foreign:
  "dockerInspect ''f1'' (runtimeOf [ownedUnit True, foreignUnit]) =
     (Inr \<lparr>JSONID = ''f1'', JSONLabels = Map.empty, JSONRunning = True\<rparr>,
      logCall (CallInspect ''f1'') (runtimeOf [ownedUnit True, foreignUnit]))"
  by (simp add: dockerInspect_def findUnit_def runtimeOf_def foreignUnit_def ownedUnit_def
      refersTo_def containerName_def containerPrefix_def pathName_def)

lemma Get_created:
  "Get docker ''c0''
     \<lparr>units = [\<lparr>unitID = ''c0'', unitName = containerName,
                 unitConfig = createConfig defaultConfig settings,
                 unitHostConfig = createHostConfig, unitRunning = True\<rparr>],
      created = n, calls = cs\<rparr> =
     (Inr \<lparr>ID = ''c0'', RoomSettings = zeroSettings, Running = False, PortRange = zeroRange\<rparr>,
      \<lparr>units = [\<lparr>unitID = ''c0'', unitName = containerName,
                  unitConfig = createConfig defaultConfig settings,
                  unitHostConfig = createHostConfig, unitRunning = True\<rparr>],
       created = n, calls = cs @ [CallInspect ''c0'']\<rparr>)"
  by (simp add: Get_def inspectContainer_def docker_def dockerInspect_def findUnit_def
      refersTo_def logCall_def createConfig_def)

lemma List_created:
  "List_rooms docker
     \<lparr>units = [\<lparr>unitID = ''c0'', unitName = containerName,
                 unitConfig = createConfig defaultConfig settings,
                 unitHostConfig = createHostConfig, unitRunning = True\<rparr>],
      created = n, calls = cs\<rparr> =
     (Inr [\<lparr>ID = ''c0'', RoomSettings = zeroSettings, Running = False,
            PortRange = zeroRange\<rparr>],
      \<lparr>units = [\<lparr>unitID = ''c0'', unitName = containerName,
                  unitConfig = createConfig defaultConfig settings,
                  unitHostConfig = createHostConfig, unitRunning = True\<rparr>],
       created = n, calls = cs @ [CallList]\<rparr>)"
  by (simp add: List_rooms_def listContainers_def docker_def dockerList_def logCall_def
      createConfig_def)


section \<open>Ownership and the not-found error\<close>

text \<open>
  Claim C2 says that a read of a unit that the runtime knows and that lacks the canary
  fails with the not-found error, the one that the handlers answer with status 404. This
  fails on the runtime that holds only the unit \<open>f1\<close> of another tenant, a unit without
  labels: the inspection by the client finds \<open>f1\<close>, and \<open>Get\<close> fails with the error that
  \<open>inspectContainer\<close> makes with \<open>fmt.Errorf\<close>. This error is not \<open>ErrRoomNotFound\<close>, and the
  status branch of the handlers answers it with 500.
\<close>

theorem Get_unowned_unit_counterexample:
  "fst (dockerInspect ''f1'' (runtimeOf [foreignUnit]))
     = Inr \<lparr>JSONID = ''f1'', JSONLabels = Map.empty, JSONRunning = True\<rparr>
   \<and> \<not> hasCanary Map.empty
   \<and> fst (inspectContainer docker ''f1'' (runtimeOf [foreignUnit]))
     = Inl (Errorf ''This container does not belong to neko_rooms.'')
   \<and> fst (Get docker ''f1'' (runtimeOf [foreignUnit]))
     = Inl (Errorf ''This container does not belong to neko_rooms.'')
   \<and> fst (Get docker ''f1'' (runtimeOf [foreignUnit])) \<noteq> Inl ErrRoomNotFound
   \<and> (notFoundOr500 (Errorf ''This container does not belong to neko_rooms.'')
        :: RoomData response)
     = HttpError 500 ''This container does not belong to neko_rooms.''"
  by (simp add: Get_def inspectContainer_def docker_def dockerInspect_def findUnit_def
      runtimeOf_def foreignUnit_def refersTo_def notFoundOr500_def)

text \<open>
  Claim C2 as amended: a unit that the runtime knows and that lacks the canary is rejected
  with an error of its own, not with the not-found error. For every client, when the
  inspection returns a unit without the canary, \<open>inspectContainer\<close> and \<open>Get\<close> fail with the
  error made by \<open>fmt.Errorf\<close> with the text "This container does not belong to
  neko_rooms.", and nothing else is asked of the client. This error is not
  \<open>ErrRoomNotFound\<close>. The handlers of \<open>GetEntry\<close>, \<open>GetSettings\<close> and \<open>GetStats\<close> answer an error
  of the manager behind them, whatever that manager is, with status 404 if it is
  \<open>ErrRoomNotFound\<close> and with status 500 if it is any other error; the status for this
  error is 500.
\<close>

theorem unowned_unit_is_a_distinct_error:
  assumes "ContainerInspectWithRaw client rid s = (Inr container, s')"
    and "\<not> hasCanary (JSONLabels container)"
  shows "inspectContainer client rid s
           = (Inl (Errorf ''This container does not belong to neko_rooms.''), s')
       \<and> Get client rid s
           = (Inl (Errorf ''This container does not belong to neko_rooms.''), s')
       \<and> Errorf ''This container does not belong to neko_rooms.'' \<noteq> ErrRoomNotFound
       \<and> (rooms_GetEntry manager roomId t = (Inl err, t1) \<longrightarrow>
            roomGetEntry manager roomId t
              = (HttpError (if err = ErrRoomNotFound then 404 else 500) (errorText err), t1))
       \<and> (rooms_GetSettings manager roomId t = (Inl err, t2) \<longrightarrow>
            roomGetSettings manager roomId t
              = (HttpError (if err = ErrRoomNotFound then 404 else 500) (errorText err), t2))
       \<and> (GetStats roomId t = (Inl err, t3) \<longrightarrow>
            roomGetStats GetStats roomId t
              = (HttpError (if err = ErrRoomNotFound then 404 else 500) (errorText err), t3))
       \<and> (if Errorf ''This container does not belong to neko_rooms.'' = ErrRoomNotFound
           then 404 else 500) = (500 :: nat)"
  using assms
  by (simp add: inspectContainer_def Get_def roomGetEntry_def roomGetSettings_def
      roomGetStats_def notFoundOr500_def)

text \<open>
  A runtime with a running room and the unit \<open>f1\<close> of another tenant: \<open>Get\<close> of \<open>f1\<close> fails
  with the error of \<open>inspectContainer\<close> after the one inspection. The manager behind the
  handlers knows no room \<open>f1\<close>: its error is \<open>ErrRoomNotFound\<close>, which the handlers answer
  with 404.
\<close>

theorem unowned_unit_is_a_distinct_error_witness:
  "Get docker ''f1'' (runtimeOf [ownedUnit True, foreignUnit])
     = (Inl (Errorf ''This container does not belong to neko_rooms.''),
        \<lparr>units = [ownedUnit True, foreignUnit], created = 0, calls = [CallInspect ''f1'']\<rparr>)
   \<and> roomGetEntry (engineManager defaultConfig 11) ''f1'' (engineOf [lobby True])
     = (HttpError 404 (errorText ErrRoomNotFound), engineOf [lobby True])
   \<and> roomGetSettings (engineManager defaultConfig 11) ''f1'' (engineOf [lobby True])
     = (HttpError 404 (errorText ErrRoomNotFound), engineOf [lobby True])
   \<and> roomGetStats engineGetStats ''f1'' (engineOf [lobby True])
     = (HttpError 404 (errorText ErrRoomNotFound), engineOf [lobby True])"
proof -
  have inspected: "ContainerInspectWithRaw docker ''f1'' (runtimeOf [ownedUnit True, foreignUnit])
      = (Inr \<lparr>JSONID = ''f1'', JSONLabels = Map.empty, JSONRunning = True\<rparr>,
         logCall (CallInspect ''f1'') (runtimeOf [ownedUnit True, foreignUnit]))"
    by (simp add: docker_def inspect_foreign)
  have unowned: "\<not> hasCanary (JSONLabels
      \<lparr>JSONID = ''f1'', JSONLabels = Map.empty, JSONRunning = True\<rparr>)"
    by simp
  have entry: "rooms_GetEntry (engineManager defaultConfig 11) ''f1'' (engineOf [lobby True])
      = (Inl ErrRoomNotFound, engineOf [lobby True])"
    by (simp add: engineManager_def engineGetEntry_def findRoom_def engineOf_def lobby_def)
  have settings: "rooms_GetSettings (engineManager defaultConfig 11) ''f1''
      (engineOf [lobby True]) = (Inl ErrRoomNotFound, engineOf [lobby True])"
    by (simp add: engineManager_def engineGetSettings_def findRoom_def engineOf_def lobby_def)
  have stats: "engineGetStats ''f1'' (engineOf [lobby True])
      = (Inl ErrRoomNotFound, engineOf [lobby True])"
    by (simp add: engineGetStats_def findRoom_def engineOf_def lobby_def)
  from unowned_unit_is_a_distinct_error [OF inspected unowned,
      where manager = "engineManager defaultConfig 11" and roomId = "''f1''"
        and t = "engineOf [lobby True]" and err = ErrRoomNotFound
        and ?t1.0 = "engineOf [lobby True]" and ?t2.0 = "engineOf [lobby True]"
        and ?t3.0 = "engineOf [lobby True]" and GetStats = engineGetStats]
    entry settings stats
  show ?thesis by (simp add: logCall_def runtimeOf_def)
qed


section \<open>Create starts the unit\<close>

text \<open>
  Claim C3 says that \<open>Create\<close> leaves the new unit created and not started. This fails:
  after \<open>Create\<close> with the default settings on the empty runtime, the unit \<open>c0\<close> is running,
  and the runtime has received the call that starts it.
\<close>

theorem Create_leaves_the_unit_running_counterexample:
  "fst (Create docker defaultConfig defaultRequest emptyRuntime)
     = Inr \<lparr>ID = ''c0'', RoomSettings = defaultRequest, Running = False,
            PortRange = zeroRange\<rparr>
   \<and> map (\<lambda>u. (unitID u, unitRunning u))
         (units (snd (Create docker defaultConfig defaultRequest emptyRuntime)))
     = [(''c0'', True)]
   \<and> calls (snd (Create docker defaultConfig defaultRequest emptyRuntime))
     = [CallCreate ''neko-room-foobar'', CallStart ''c0'']"
  unfolding Create_on_empty
  by (simp add: containerName_def containerPrefix_def pathName_def)

text \<open>
  Claim C3 as amended: \<open>Create\<close> creates the unit and starts it. For every client, every
  configuration and every settings value, a \<open>Create\<close> that succeeds has asked the runtime
  to create the unit and then to start the unit that was created, both with success, and
  the state it returns is the one the start left.
\<close>

theorem Create_starts_the_unit:
  assumes "Create client config settings s = (Inr data, s')"
  shows "\<exists>s1. ContainerCreate client (createConfig config settings) createHostConfig
                (createNetworkingConfig config) containerName s = (Inr (ID data), s1)
            \<and> ContainerStart client (ID data) s1 = (None, s')"
  using assms
  by (auto simp: Create_def split: prod.splits sum.splits option.splits)

text \<open>
  \<open>Create\<close> with the settings of the room \<open>lobby\<close> on the empty runtime: the reference
  runtime creates the unit \<open>c0\<close>, and its start leaves \<open>c0\<close> running.
\<close>

theorem Create_starts_the_unit_witness:
  "\<exists>s1. dockerCreate (createConfig defaultConfig lobbySettings) createHostConfig
            (createNetworkingConfig defaultConfig) containerName emptyRuntime
            = (Inr ''c0'', s1)
        \<and> dockerStart ''c0'' s1
            = (None,
               \<lparr>units = [\<lparr>unitID = ''c0'', unitName = containerName,
                           unitConfig = createConfig defaultConfig lobbySettings,
                           unitHostConfig = createHostConfig, unitRunning = True\<rparr>],
                created = 1,
                calls = [CallCreate containerName, CallStart ''c0'']\<rparr>)"
proof -
  have client: "ContainerCreate docker = dockerCreate" "ContainerStart docker = dockerStart"
    by (simp_all add: docker_def)
  from Create_starts_the_unit [OF Create_on_empty [of lobbySettings]]
  show ?thesis
    by (simp add: client)
qed


section \<open>The ports that Create requests\<close>

lemma epr_label [simp]:
  "createLabels config ''m1k1o.neko_rooms.epr'' = Some ''52135-52145''"
  by (simp add: createLabels_def Let_def eprStart_def eprEnd_def containerName_def
      containerPrefix_def pathName_def)

lemma hostPorts_created:
  "unitHostConfig u = createHostConfig \<Longrightarrow> hostPorts u = map showNat eprPorts"
  by (simp add: hostPorts_def createHostConfig_def portBindings_def comp_def
      concat_map_singleton)

lemma eprPorts_not_empty: "eprPorts \<noteq> []"
  by (simp add: eprPorts_def eprStart_def eprEnd_def)

lemma list_ex_self: "xs \<noteq> [] \<Longrightarrow> list_ex (\<lambda>p. p \<in> set xs) xs"
  by (cases xs) simp_all

lemma Create_beside_other_room:
  "Create docker defaultConfig settings (runtimeOf [otherRoom]) =
     (Inl (ClientError ''port is already allocated''),
      \<lparr>units = [otherRoom,
                 \<lparr>unitID = ''c0'', unitName = containerName,
                  unitConfig = createConfig defaultConfig settings,
                  unitHostConfig = createHostConfig, unitRunning = False\<rparr>],
       created = 1,
       calls = [CallCreate containerName, CallStart ''c0'']\<rparr>)"
proof -
  have ports: "hostPorts otherRoom = map showNat eprPorts"
    by (rule hostPorts_created) (simp add: otherRoom_def ownedUnit_def)
  have taken: "list_ex (\<lambda>p. p \<in> set (map showNat eprPorts)) (map showNat eprPorts)"
    by (rule list_ex_self) (simp add: eprPorts_not_empty)
  show ?thesis
    using taken
    by (simp add: Create_def docker_def dockerCreate_def dockerStart_def runtimeOf_def
        logCall_def findUnit_def refersTo_def portsTaken_def Let_def ports hostPorts_created
        otherRoom_def ownedUnit_def containerName_def containerPrefix_def pathName_def)
qed

text \<open>
  Claim C1 says that \<open>Create\<close> scans the configured pool for the lowest free range, judged
  by the labels of the owned units, and fails with \<open>PoolExhausted\<close> when there is none. The
  sources do otherwise. Whatever the configuration and the settings, the unit that
  \<open>Create\<close> requests is labelled with the range 52135-52145 and binds exactly these host
  ports; the pool of the default configuration starts at 59000. With a running room
  \<open>neko-room-other\<close> that holds this range, \<open>Create\<close> requests the range again: the runtime
  creates the unit and refuses to start it, and \<open>Create\<close> returns the error of the runtime,
  leaving behind a second unit labelled with the range that was taken.
\<close>

theorem Create_requests_a_fixed_range:
  "Labels (createConfig config settings) ''m1k1o.neko_rooms.epr'' = Some ''52135-52145''
   \<and> map fst (PortBindings createHostConfig) = map portKey [52135 ..< 52146]
   \<and> EphemeralMin defaultConfig = 59000
   \<and> fst (Create docker defaultConfig defaultRequest (runtimeOf [otherRoom]))
       = Inl (ClientError ''port is already allocated'')
   \<and> map (\<lambda>u. (unitName u, Labels (unitConfig u) ''m1k1o.neko_rooms.epr'', unitRunning u))
         (units (snd (Create docker defaultConfig defaultRequest (runtimeOf [otherRoom]))))
       = [(''neko-room-other'', Some ''52135-52145'', True),
          (''neko-room-foobar'', Some ''52135-52145'', False)]"
proof (intro conjI)
  show "Labels (createConfig config settings) ''m1k1o.neko_rooms.epr'' = Some ''52135-52145''"
    by (simp add: createConfig_def)
  show "map fst (PortBindings createHostConfig) = map portKey [52135 ..< 52146]"
    by (simp add: createHostConfig_def portBindings_def eprPorts_def eprStart_def eprEnd_def
        comp_def)
  show "EphemeralMin defaultConfig = 59000"
    by (simp add: defaultConfig_def)
  show "fst (Create docker defaultConfig defaultRequest (runtimeOf [otherRoom]))
          = Inl (ClientError ''port is already allocated'')"
    by (simp add: Create_beside_other_room)
  show "map (\<lambda>u. (unitName u, Labels (unitConfig u) ''m1k1o.neko_rooms.epr'', unitRunning u))
          (units (snd (Create docker defaultConfig defaultRequest (runtimeOf [otherRoom]))))
        = [(''neko-room-other'', Some ''52135-52145'', True),
           (''neko-room-foobar'', Some ''52135-52145'', False)]"
    unfolding Create_beside_other_room
    by (simp add: otherRoom_def ownedUnit_def createConfig_def containerName_def
        containerPrefix_def pathName_def)
qed

section \<open>The shared-memory size\<close>

text \<open>
  Claim C6 says that the unit specification takes its shared-memory size from the
  settings, 2 * 10^9 bytes by default. The sources do otherwise: the host configuration
  that \<open>Create\<close> builds does not depend on the settings, and its shared-memory size is the
  constant \<open>2 * 10e9\<close>, which is 2 * 10^10. The unit created for the default request of
  \<open>roomCreate\<close>, whose \<open>ShmSize\<close> is 2 * 10^9, has ten times that size.
\<close>

theorem Create_shm_size_is_a_constant:
  "HostShmSize createHostConfig = 20000000000
   \<and> ShmSize (Resources defaultRequest) = 2000000000
   \<and> map (\<lambda>u. HostShmSize (unitHostConfig u))
         (units (snd (Create docker defaultConfig defaultRequest emptyRuntime)))
       = [20000000000]"
  by (simp add: Create_on_empty createHostConfig_def defaultRequest_def)

section \<open>What a read returns\<close>

text \<open>
  Claim C7 says that every read builds room data from the unit: the settings decoded from
  its labels, the running flag of the live unit and the assigned port range. This fails:
  after \<open>Create\<close> with the default request on the empty runtime the unit \<open>c0\<close> is running
  and labelled with the range 52135-52145, and both \<open>Get\<close> and \<open>List\<close> return for it the
  zero settings, not those of the request, a running flag that is false and the zero
  port range.
\<close>

theorem Get_returns_the_unit_state_counterexample:
  "fst (Create docker defaultConfig defaultRequest emptyRuntime)
     = Inr \<lparr>ID = ''c0'', RoomSettings = defaultRequest, Running = False,
            PortRange = zeroRange\<rparr>
   \<and> map (\<lambda>u. (unitRunning u, Labels (unitConfig u) ''m1k1o.neko_rooms.epr''))
         (units (snd (Create docker defaultConfig defaultRequest emptyRuntime)))
     = [(True, Some ''52135-52145'')]
   \<and> fst (Get docker ''c0'' (snd (Create docker defaultConfig defaultRequest emptyRuntime)))
     = Inr \<lparr>ID = ''c0'', RoomSettings = zeroSettings, Running = False,
            PortRange = zeroRange\<rparr>
   \<and> fst (List_rooms docker (snd (Create docker defaultConfig defaultRequest emptyRuntime)))
     = Inr [\<lparr>ID = ''c0'', RoomSettings = zeroSettings, Running = False,
             PortRange = zeroRange\<rparr>]
   \<and> zeroSettings \<noteq> defaultRequest
   \<and> zeroRange = \<lparr>portStart = 0, portEnd = 0\<rparr>"
proof -
  have labelled: "Labels (createConfig defaultConfig defaultRequest) ''m1k1o.neko_rooms.epr''
      = Some ''52135-52145''"
    by (simp add: createConfig_def)
  have differ: "zeroSettings \<noteq> defaultRequest"
    by (simp add: zeroSettings_def defaultRequest_def)
  from labelled differ show ?thesis
    by (simp only: Create_on_empty Get_created List_created fst_conv snd_conv zeroRange_def
        runtime.simps unit_state.simps list.map simp_thms)
qed

text \<open>
  Claim C7 as amended: a read returns the identifier of the unit and nothing else of it.
  For every client, \<open>Get\<close> of a unit that passes the ownership inspection returns room data
  with the id that was asked for, the zero settings, a false running flag and the zero
  port range, whatever the inspection reported of the unit; \<open>List\<close> returns one such
  element, with the id that the runtime reports, for each listed unit that carries the
  canary; and every \<open>Get\<close> and every \<open>List\<close> that succeeds returns such room data only.
\<close>

theorem reads_return_the_id_only:
  "(inspectContainer client rid s = (Inr container, s1) \<longrightarrow>
      Get client rid s
        = (Inr \<lparr>ID = rid, RoomSettings = zeroSettings, Running = False,
                PortRange = zeroRange\<rparr>, s1))
   \<and> (ContainerList client s = (Inr containers, s2) \<longrightarrow>
      List_rooms client s =
        (Inr (map (\<lambda>c. \<lparr>ID = ContainerID c, RoomSettings = zeroSettings, Running = False,
                         PortRange = zeroRange\<rparr>)
                (filter (\<lambda>c. hasCanary (ContainerLabels c)) containers)), s2))
   \<and> (Get client rid s = (Inr data, s3) \<longrightarrow>
      data = \<lparr>ID = rid, RoomSettings = zeroSettings, Running = False,
              PortRange = zeroRange\<rparr>)
   \<and> (List_rooms client s = (Inr listed, s4) \<longrightarrow>
      list_all (\<lambda>data. RoomSettings data = zeroSettings \<and> \<not> Running data
                  \<and> PortRange data = zeroRange) listed)"
proof (intro conjI impI)
  assume "inspectContainer client rid s = (Inr container, s1)"
  then show "Get client rid s
      = (Inr \<lparr>ID = rid, RoomSettings = zeroSettings, Running = False,
              PortRange = zeroRange\<rparr>, s1)"
    by (simp add: Get_def)
next
  assume "ContainerList client s = (Inr containers, s2)"
  then show "List_rooms client s =
      (Inr (map (\<lambda>c. \<lparr>ID = ContainerID c, RoomSettings = zeroSettings, Running = False,
                       PortRange = zeroRange\<rparr>)
              (filter (\<lambda>c. hasCanary (ContainerLabels c)) containers)), s2)"
    by (simp add: List_rooms_def listContainers_def)
next
  assume "Get client rid s = (Inr data, s3)"
  then show "data = \<lparr>ID = rid, RoomSettings = zeroSettings, Running = False,
      PortRange = zeroRange\<rparr>"
    by (auto simp: Get_def split: prod.splits sum.splits)
next
  assume "List_rooms client s = (Inr listed, s4)"
  then show "list_all (\<lambda>data. RoomSettings data = zeroSettings \<and> \<not> Running data
      \<and> PortRange data = zeroRange) listed"
    by (auto simp: List_rooms_def list_all_iff split: prod.splits sum.splits)
qed

lemma inspectContainer_owned:
  "inspectContainer docker ''r1'' (runtimeOf [ownedUnit True, foreignUnit]) =
     (Inr \<lparr>JSONID = ''r1'', JSONLabels = createLabels defaultConfig, JSONRunning = True\<rparr>,
      \<lparr>units = [ownedUnit True, foreignUnit], created = 0, calls = [CallInspect ''r1'']\<rparr>)"
  by (simp add: inspectContainer_def docker_def dockerInspect_def findUnit_def refersTo_def
      logCall_def runtimeOf_def ownedUnit_def createConfig_def)

lemma ContainerList_two_units:
  "ContainerList docker (runtimeOf [ownedUnit True, foreignUnit]) =
     (Inr [\<lparr>ContainerID = ''r1'', ContainerLabels = createLabels defaultConfig\<rparr>,
           \<lparr>ContainerID = ''f1'', ContainerLabels = Map.empty\<rparr>],
      \<lparr>units = [ownedUnit True, foreignUnit], created = 0, calls = [CallList]\<rparr>)"
  by (simp add: docker_def dockerList_def logCall_def runtimeOf_def ownedUnit_def
      foreignUnit_def createConfig_def)

text \<open>A runtime with a running room and a unit of another tenant.\<close>

theorem reads_return_the_id_only_witness:
  "Get docker ''r1'' (runtimeOf [ownedUnit True, foreignUnit])
     = (Inr \<lparr>ID = ''r1'', RoomSettings = zeroSettings, Running = False,
             PortRange = zeroRange\<rparr>,
        \<lparr>units = [ownedUnit True, foreignUnit], created = 0, calls = [CallInspect ''r1'']\<rparr>)
   \<and> List_rooms docker (runtimeOf [ownedUnit True, foreignUnit])
     = (Inr [\<lparr>ID = ''r1'', RoomSettings = zeroSettings, Running = False,
              PortRange = zeroRange\<rparr>],
        \<lparr>units = [ownedUnit True, foreignUnit], created = 0, calls = [CallList]\<rparr>)
   \<and> list_all (\<lambda>data. RoomSettings data = zeroSettings \<and> \<not> Running data
                 \<and> PortRange data = zeroRange)
        [\<lparr>ID = ''r1'', RoomSettings = zeroSettings, Running = False,
          PortRange = zeroRange\<rparr>]"
proof -
  note reads = reads_return_the_id_only
    [where client = docker and rid = "''r1''" and s = "runtimeOf [ownedUnit True, foreignUnit]"
       and container =
         "\<lparr>JSONID = ''r1'', JSONLabels = createLabels defaultConfig, JSONRunning = True\<rparr>"
       and ?s1.0 =
         "\<lparr>units = [ownedUnit True, foreignUnit], created = 0, calls = [CallInspect ''r1'']\<rparr>"
       and containers =
         "[\<lparr>ContainerID = ''r1'', ContainerLabels = createLabels defaultConfig\<rparr>,
           \<lparr>ContainerID = ''f1'', ContainerLabels = Map.empty\<rparr>]"
       and ?s2.0 = "\<lparr>units = [ownedUnit True, foreignUnit], created = 0, calls = [CallList]\<rparr>"
       and data = "\<lparr>ID = ''r1'', RoomSettings = zeroSettings, Running = False,
                     PortRange = zeroRange\<rparr>"
       and ?s3.0 =
         "\<lparr>units = [ownedUnit True, foreignUnit], created = 0, calls = [CallInspect ''r1'']\<rparr>"
       and listed = "[\<lparr>ID = ''r1'', RoomSettings = zeroSettings, Running = False,
                       PortRange = zeroRange\<rparr>]"
       and ?s4.0 = "\<lparr>units = [ownedUnit True, foreignUnit], created = 0, calls = [CallList]\<rparr>"]
  from reads have got: "Get docker ''r1'' (runtimeOf [ownedUnit True, foreignUnit])
      = (Inr \<lparr>ID = ''r1'', RoomSettings = zeroSettings, Running = False,
              PortRange = zeroRange\<rparr>,
         \<lparr>units = [ownedUnit True, foreignUnit], created = 0, calls = [CallInspect ''r1'']\<rparr>)"
    by (simp add: inspectContainer_owned)
  from reads have listed: "List_rooms docker (runtimeOf [ownedUnit True, foreignUnit])
      = (Inr [\<lparr>ID = ''r1'', RoomSettings = zeroSettings, Running = False,
               PortRange = zeroRange\<rparr>],
         \<lparr>units = [ownedUnit True, foreignUnit], created = 0, calls = [CallList]\<rparr>)"
    by (simp add: ContainerList_two_units)
  from reads listed have "list_all (\<lambda>data. RoomSettings data = zeroSettings \<and> \<not> Running data
        \<and> PortRange data = zeroRange)
      [\<lparr>ID = ''r1'', RoomSettings = zeroSettings, Running = False, PortRange = zeroRange\<rparr>]"
    by blast
  with got listed show ?thesis by blast
qed


section \<open>The manager behind the handlers on concrete rooms\<close>

lemma Allocate_lowest:
  assumes "EphemeralMin config \<le> EphemeralMax config"
    and "freeAt config width e (EphemeralMin config)"
  shows "Allocate config width e = Inr (rangeAt (EphemeralMin config) width)"
proof -
  from assms(1) have "[EphemeralMin config ..< Suc (EphemeralMax config)]
      = EphemeralMin config # [Suc (EphemeralMin config) ..< Suc (EphemeralMax config)]"
    by (simp add: upt_conv_Cons)
  with assms(2) show ?thesis
    by (simp add: Allocate_def)
qed

lemma Allocate_no_rooms:
  "Allocate defaultConfig 11 \<lparr>rooms = [], counter = n\<rparr>
     = Inr \<lparr>portStart = 59000, portEnd = 59010\<rparr>"
proof -
  have "Allocate defaultConfig 11 \<lparr>rooms = [], counter = n\<rparr>
      = Inr (rangeAt (EphemeralMin defaultConfig) 11)"
    by (rule Allocate_lowest) (simp_all add: defaultConfig_def freeAt_def)
  then show ?thesis
    by (simp add: rangeAt_def defaultConfig_def)
qed

lemma engineGetEntry_lobby:
  "rooms_GetEntry (engineManager defaultConfig 11) ''r1'' (engineOf [lobby b])
     = (Inr \<lparr>ID = ''r1'', RoomSettings = lobbySettings, Running = b,
             PortRange = \<lparr>portStart = 59000, portEnd = 59010\<rparr>\<rparr>, engineOf [lobby b])"
  by (simp add: engineManager_def engineGetEntry_def findRoom_def engineOf_def lobby_def
      roomEntry_def)

lemma engineGetSettings_lobby:
  "rooms_GetSettings (engineManager defaultConfig 11) ''r1'' (engineOf [lobby b])
     = (Inr lobbySettings, engineOf [lobby b])"
  by (simp add: engineManager_def engineGetSettings_def findRoom_def engineOf_def lobby_def)

lemma engineRemove_lobby:
  "rooms_Remove (engineManager defaultConfig 11) ''r1'' (engineOf [lobby b])
     = (None, \<lparr>rooms = [], counter = 0\<rparr>)"
  by (simp add: engineManager_def engineRemove_def findRoom_def engineOf_def lobby_def)

lemma engineCreate_no_rooms:
  assumes "list_all (\<lambda>(key, _). CheckLabelKey key) (RoomLabels settings)"
  shows "rooms_Create (engineManager defaultConfig 11) settings \<lparr>rooms = [], counter = 0\<rparr>
     = (Inr ''c0'',
        \<lparr>rooms = [\<lparr>roomID = ''c0'', roomSettings = settings, roomRunning = False,
                    roomPorts = \<lparr>portStart = 59000, portEnd = 59010\<rparr>\<rparr>],
         counter = 1\<rparr>)"
  using assms
  by (simp add: engineManager_def engineCreate_def Allocate_no_rooms Let_def)

lemma engineStart_created:
  "rooms_Start (engineManager defaultConfig 11) ''c0''
       \<lparr>rooms = [\<lparr>roomID = ''c0'', roomSettings = settings, roomRunning = False,
                   roomPorts = \<lparr>portStart = 59000, portEnd = 59010\<rparr>\<rparr>],
        counter = n\<rparr>
     = (None,
        \<lparr>rooms = [\<lparr>roomID = ''c0'', roomSettings = settings, roomRunning = True,
                    roomPorts = \<lparr>portStart = 59000, portEnd = 59010\<rparr>\<rparr>],
         counter = n\<rparr>)"
  by (simp add: engineManager_def engineStart_def findRoom_def)

lemma engineGetEntry_created:
  "rooms_GetEntry (engineManager defaultConfig 11) ''c0''
       \<lparr>rooms = [\<lparr>roomID = ''c0'', roomSettings = settings, roomRunning = b,
                   roomPorts = \<lparr>portStart = 59000, portEnd = 59010\<rparr>\<rparr>],
        counter = n\<rparr>
     = (Inr \<lparr>ID = ''c0'', RoomSettings = settings, Running = b,
             PortRange = \<lparr>portStart = 59000, portEnd = 59010\<rparr>\<rparr>,
        \<lparr>rooms = [\<lparr>roomID = ''c0'', roomSettings = settings, roomRunning = b,
                    roomPorts = \<lparr>portStart = 59000, portEnd = 59010\<rparr>\<rparr>],
         counter = n\<rparr>)"
  by (simp add: engineManager_def engineGetEntry_def findRoom_def roomEntry_def)

lemma lobby_labels_valid:
  "list_all (\<lambda>(key, _). CheckLabelKey key) (RoomLabels lobbySettings)"
  by (simp add: lobbySettings_def CheckLabelKey_def labelChar_def)

lemma lobby_with_20_valid:
  "list_all (\<lambda>(key, _). CheckLabelKey key)
     (RoomLabels (decodeSettings maxConnections20 lobbySettings))"
  by (simp add: decodeSettings_def maxConnections20_def lobby_labels_valid)

lemma recreate_lobby:
  assumes "list_all (\<lambda>(key, _). CheckLabelKey key) (RoomLabels settings)"
  shows "recreate (engineManager defaultConfig 11)
       \<lparr>ID = ''r1'', RoomSettings = lobbySettings, Running = b,
         PortRange = \<lparr>portStart = 59000, portEnd = 59010\<rparr>\<rparr>
       ''r1'' (Some settings) (engineOf [lobby b])
     = (Json \<lparr>ID = ''c0'', RoomSettings = settings, Running = b,
              PortRange = \<lparr>portStart = 59000, portEnd = 59010\<rparr>\<rparr>,
        \<lparr>rooms = [\<lparr>roomID = ''c0'', roomSettings = settings, roomRunning = b,
                    roomPorts = \<lparr>portStart = 59000, portEnd = 59010\<rparr>\<rparr>],
         counter = 1\<rparr>)"
  by (cases b)
     (simp_all add: recreate_def engineRemove_lobby engineCreate_no_rooms [OF assms]
        engineStart_created engineGetEntry_created)


section \<open>Recreate and the running flag\<close>




section \<open>Request bodies of Create and Recreate\<close>

text \<open>
  Claim C5. For every manager behind the handler, every room whose entry and stored
  settings it returns, and every JSON object \<open>p\<close> as body: \<open>roomRecreate\<close> goes on with the
  stored settings overridden by \<open>p\<close>, and with an empty body it goes on with the stored
  settings. These are the settings that reach \<open>Create\<close>: when the removal and the remaining
  calls succeed, the answer is the entry of the room that \<open>Create\<close> made from them. In the
  overridden settings every field that \<open>p\<close> names has the value that \<open>p\<close> gives, and every
  field that \<open>p\<close> does not name keeps its stored value: the name, the image, the
  connection limit and the network mode; the resources as a whole when \<open>p\<close> does not name
  them, and field by field when it does; the labels as a whole when \<open>p\<close> does not name
  them, and otherwise the stored entries with those of \<open>p\<close> stored over them. On the
  stored settings of the example of the specification, the body \<open>{"MaxConnections": 20}\<close>
  changes \<open>MaxConnections\<close> from 10 to 20 and nothing else.
\<close>

theorem Recreate_merges_the_override:
  assumes "rooms_GetEntry manager roomId s = (Inr entry, s1)"
    and "rooms_GetSettings manager roomId s1 = (Inr stored, s2)"
  shows "roomRecreate manager roomId (ObjectBody p) s
           = recreate manager entry roomId (Some (decodeSettings p stored)) s2
       \<and> roomRecreate manager roomId EmptyBody s
           = recreate manager entry roomId (Some stored) s2
       \<and> (rooms_Remove manager roomId s2 = (None, s3) \<longrightarrow>
            rooms_Create manager (decodeSettings p stored) s3 = (Inr newID, s4) \<longrightarrow>
            (if Running entry then rooms_Start manager newID s4 else (None, s4)) = (None, s5) \<longrightarrow>
            rooms_GetEntry manager newID s5 = (Inr response, s6) \<longrightarrow>
            roomRecreate manager roomId (ObjectBody p) s = (Json response, s6))
       \<and> (patchName p = None \<longrightarrow> Name (decodeSettings p stored) = Name stored)
       \<and> (patchName p = Some nm \<longrightarrow> Name (decodeSettings p stored) = nm)
       \<and> (patchNekoImage p = None \<longrightarrow> NekoImage (decodeSettings p stored) = NekoImage stored)
       \<and> (patchNekoImage p = Some img \<longrightarrow> NekoImage (decodeSettings p stored) = img)
       \<and> (patchMaxConnections p = None \<longrightarrow>
            MaxConnections (decodeSettings p stored) = MaxConnections stored)
       \<and> (patchMaxConnections p = Some n \<longrightarrow> MaxConnections (decodeSettings p stored) = n)
       \<and> (patchNetworkMode p = None \<longrightarrow>
            NetworkMode (decodeSettings p stored) = NetworkMode stored)
       \<and> (patchNetworkMode p = Some mode \<longrightarrow> NetworkMode (decodeSettings p stored) = mode)
       \<and> (patchResources p = None \<longrightarrow> Resources (decodeSettings p stored) = Resources stored)
       \<and> (patchResources p = Some rp \<longrightarrow> patchCPUShares rp = None \<longrightarrow>
            CPUShares (Resources (decodeSettings p stored)) = CPUShares (Resources stored))
       \<and> (patchResources p = Some rp \<longrightarrow> patchCPUShares rp = Some cpu \<longrightarrow>
            CPUShares (Resources (decodeSettings p stored)) = cpu)
       \<and> (patchResources p = Some rp \<longrightarrow> patchMemory rp = None \<longrightarrow>
            Memory (Resources (decodeSettings p stored)) = Memory (Resources stored))
       \<and> (patchResources p = Some rp \<longrightarrow> patchMemory rp = Some mem \<longrightarrow>
            Memory (Resources (decodeSettings p stored)) = mem)
       \<and> (patchResources p = Some rp \<longrightarrow> patchShmSize rp = None \<longrightarrow>
            ShmSize (Resources (decodeSettings p stored)) = ShmSize (Resources stored))
       \<and> (patchResources p = Some rp \<longrightarrow> patchShmSize rp = Some shm \<longrightarrow>
            ShmSize (Resources (decodeSettings p stored)) = shm)
       \<and> (patchLabels p = None \<longrightarrow> RoomLabels (decodeSettings p stored) = RoomLabels stored)
       \<and> (patchLabels p = Some ls \<longrightarrow>
            map_of (RoomLabels (decodeSettings p stored)) = map_of (RoomLabels stored) ++ map_of ls)
       \<and> decodeSettings maxConnections20
            \<lparr>Name = nm', NekoImage = img', MaxConnections = 10,
             Resources = \<lparr>CPUShares = cpu', Memory = mem', ShmSize = 2000000000\<rparr>,
             NetworkMode = mode', RoomLabels = ls'\<rparr>
           = \<lparr>Name = nm', NekoImage = img', MaxConnections = 20,
              Resources = \<lparr>CPUShares = cpu', Memory = mem', ShmSize = 2000000000\<rparr>,
              NetworkMode = mode', RoomLabels = ls'\<rparr>"
proof -
  have object: "roomRecreate manager roomId (ObjectBody p) s
      = recreate manager entry roomId (Some (decodeSettings p stored)) s2"
    using assms by (simp add: roomRecreate_def)
  have empty: "roomRecreate manager roomId EmptyBody s
      = recreate manager entry roomId (Some stored) s2"
    using assms by (simp add: roomRecreate_def)
  have created: "rooms_Remove manager roomId s2 = (None, s3) \<longrightarrow>
      rooms_Create manager (decodeSettings p stored) s3 = (Inr newID, s4) \<longrightarrow>
      (if Running entry then rooms_Start manager newID s4 else (None, s4)) = (None, s5) \<longrightarrow>
      rooms_GetEntry manager newID s5 = (Inr response, s6) \<longrightarrow>
      roomRecreate manager roomId (ObjectBody p) s = (Json response, s6)"
    unfolding object by (simp add: recreate_def)
  have plain: "(patchName p = None \<longrightarrow> Name (decodeSettings p stored) = Name stored)
      \<and> (patchName p = Some nm \<longrightarrow> Name (decodeSettings p stored) = nm)
      \<and> (patchNekoImage p = None \<longrightarrow> NekoImage (decodeSettings p stored) = NekoImage stored)
      \<and> (patchNekoImage p = Some img \<longrightarrow> NekoImage (decodeSettings p stored) = img)
      \<and> (patchMaxConnections p = None \<longrightarrow>
            MaxConnections (decodeSettings p stored) = MaxConnections stored)
      \<and> (patchMaxConnections p = Some n \<longrightarrow> MaxConnections (decodeSettings p stored) = n)
      \<and> (patchNetworkMode p = None \<longrightarrow>
            NetworkMode (decodeSettings p stored) = NetworkMode stored)
      \<and> (patchNetworkMode p = Some mode \<longrightarrow> NetworkMode (decodeSettings p stored) = mode)"
    by (simp add: decodeSettings_def assign_def)
  have resources: "(patchResources p = None \<longrightarrow>
        Resources (decodeSettings p stored) = Resources stored)
      \<and> (patchResources p = Some rp \<longrightarrow> patchCPUShares rp = None \<longrightarrow>
            CPUShares (Resources (decodeSettings p stored)) = CPUShares (Resources stored))
      \<and> (patchResources p = Some rp \<longrightarrow> patchCPUShares rp = Some cpu \<longrightarrow>
            CPUShares (Resources (decodeSettings p stored)) = cpu)
      \<and> (patchResources p = Some rp \<longrightarrow> patchMemory rp = None \<longrightarrow>
            Memory (Resources (decodeSettings p stored)) = Memory (Resources stored))
      \<and> (patchResources p = Some rp \<longrightarrow> patchMemory rp = Some mem \<longrightarrow>
            Memory (Resources (decodeSettings p stored)) = mem)
      \<and> (patchResources p = Some rp \<longrightarrow> patchShmSize rp = None \<longrightarrow>
            ShmSize (Resources (decodeSettings p stored)) = ShmSize (Resources stored))
      \<and> (patchResources p = Some rp \<longrightarrow> patchShmSize rp = Some shm \<longrightarrow>
            ShmSize (Resources (decodeSettings p stored)) = shm)"
    by (simp add: decodeSettings_def decodeResources_def assign_def)
  have labels: "(patchLabels p = None \<longrightarrow>
        RoomLabels (decodeSettings p stored) = RoomLabels stored)
      \<and> (patchLabels p = Some ls \<longrightarrow>
            map_of (RoomLabels (decodeSettings p stored))
              = map_of (RoomLabels stored) ++ map_of ls)"
    by (simp add: decodeSettings_def merge_conv')
  have example: "decodeSettings maxConnections20
        \<lparr>Name = nm', NekoImage = img', MaxConnections = 10,
         Resources = \<lparr>CPUShares = cpu', Memory = mem', ShmSize = 2000000000\<rparr>,
         NetworkMode = mode', RoomLabels = ls'\<rparr>
      = \<lparr>Name = nm', NekoImage = img', MaxConnections = 20,
         Resources = \<lparr>CPUShares = cpu', Memory = mem', ShmSize = 2000000000\<rparr>,
         NetworkMode = mode', RoomLabels = ls'\<rparr>"
    by (simp add: decodeSettings_def maxConnections20_def assign_def)
  from object empty created plain resources labels example show ?thesis by simp
qed

text \<open>
  The running room \<open>r1\<close> of the manager behind the handlers, with the stored settings of
  the example and values in every other field, recreated with the body
  \<open>{"MaxConnections": 20}\<close>: the room \<open>c0\<close> that replaces it has \<open>MaxConnections\<close> 20 and
  the stored value in every other field. The two other bodies, decoded onto the same
  stored settings: the fields they name change, the memory and the connection limit that
  the first does not name stay, as do the CPU shares and the shared-memory size that the
  second does not name.
\<close>

theorem Recreate_merges_the_override_witness:
  "roomRecreate (engineManager defaultConfig 11) ''r1'' (ObjectBody maxConnections20)
       (engineOf [lobby True])
     = (Json \<lparr>ID = ''c0'',
              RoomSettings =
                \<lparr>Name = ''lobby'', NekoImage = ''m1k1o/neko:firefox'', MaxConnections = 20,
                 Resources = \<lparr>CPUShares = 512, Memory = 1000000000, ShmSize = 2000000000\<rparr>,
                 NetworkMode = ''bridge'', RoomLabels = [(''app'', ''neko'')]\<rparr>,
              Running = True,
              PortRange = \<lparr>portStart = 59000, portEnd = 59010\<rparr>\<rparr>,
        \<lparr>rooms = [\<lparr>roomID = ''c0'',
                    roomSettings =
                      \<lparr>Name = ''lobby'', NekoImage = ''m1k1o/neko:firefox'',
                       MaxConnections = 20,
                       Resources = \<lparr>CPUShares = 512, Memory = 1000000000,
                                    ShmSize = 2000000000\<rparr>,
                       NetworkMode = ''bridge'', RoomLabels = [(''app'', ''neko'')]\<rparr>,
                    roomRunning = True,
                    roomPorts = \<lparr>portStart = 59000, portEnd = 59010\<rparr>\<rparr>],
         counter = 1\<rparr>)
   \<and> Name (decodeSettings renamedBody lobbySettings) = ''arcade''
   \<and> NekoImage (decodeSettings renamedBody lobbySettings) = ''m1k1o/neko:chromium''
   \<and> MaxConnections (decodeSettings renamedBody lobbySettings) = 10
   \<and> NetworkMode (decodeSettings renamedBody lobbySettings) = ''host''
   \<and> Resources (decodeSettings renamedBody lobbySettings)
     = \<lparr>CPUShares = 1024, Memory = 1000000000, ShmSize = 1000000000\<rparr>
   \<and> map_of (RoomLabels (decodeSettings renamedBody lobbySettings))
     = [''app'' \<mapsto> ''neko'', ''team'' \<mapsto> ''blue'']
   \<and> decodeSettings memoryBody lobbySettings
     = \<lparr>Name = ''lobby'', NekoImage = ''m1k1o/neko:firefox'', MaxConnections = 10,
        Resources = \<lparr>CPUShares = 512, Memory = 500000000, ShmSize = 2000000000\<rparr>,
        NetworkMode = ''bridge'', RoomLabels = [(''app'', ''neko'')]\<rparr>"
proof -
  note read = engineGetEntry_lobby [of True] engineGetSettings_lobby [of True]
  note merged = Recreate_merges_the_override [OF read, of maxConnections20]
  from merged [THEN conjunct1] have "roomRecreate (engineManager defaultConfig 11) ''r1''
        (ObjectBody maxConnections20) (engineOf [lobby True])
      = recreate (engineManager defaultConfig 11)
          \<lparr>ID = ''r1'', RoomSettings = lobbySettings, Running = True,
            PortRange = \<lparr>portStart = 59000, portEnd = 59010\<rparr>\<rparr> ''r1''
          (Some (decodeSettings maxConnections20 lobbySettings)) (engineOf [lobby True])" .
  also have "\<dots> = (Json \<lparr>ID = ''c0'',
        RoomSettings = decodeSettings maxConnections20 lobbySettings, Running = True,
        PortRange = \<lparr>portStart = 59000, portEnd = 59010\<rparr>\<rparr>,
      \<lparr>rooms = [\<lparr>roomID = ''c0'',
                  roomSettings = decodeSettings maxConnections20 lobbySettings,
                  roomRunning = True,
                  roomPorts = \<lparr>portStart = 59000, portEnd = 59010\<rparr>\<rparr>],
       counter = 1\<rparr>)"
    by (rule recreate_lobby [OF lobby_with_20_valid])
  finally have handler: "roomRecreate (engineManager defaultConfig 11) ''r1''
        (ObjectBody maxConnections20) (engineOf [lobby True])
      = (Json \<lparr>ID = ''c0'',
          RoomSettings = decodeSettings maxConnections20 lobbySettings, Running = True,
          PortRange = \<lparr>portStart = 59000, portEnd = 59010\<rparr>\<rparr>,
        \<lparr>rooms = [\<lparr>roomID = ''c0'',
                    roomSettings = decodeSettings maxConnections20 lobbySettings,
                    roomRunning = True,
                    roomPorts = \<lparr>portStart = 59000, portEnd = 59010\<rparr>\<rparr>],
         counter = 1\<rparr>)" .
  from merged [where nm' = "''lobby''" and img' = "''m1k1o/neko:firefox''" and cpu' = 512
      and mem' = 1000000000 and mode' = "''bridge''" and ls' = "[(''app'', ''neko'')]"]
  have example: "decodeSettings maxConnections20 lobbySettings
      = \<lparr>Name = ''lobby'', NekoImage = ''m1k1o/neko:firefox'', MaxConnections = 20,
         Resources = \<lparr>CPUShares = 512, Memory = 1000000000, ShmSize = 2000000000\<rparr>,
         NetworkMode = ''bridge'', RoomLabels = [(''app'', ''neko'')]\<rparr>"
    by (simp add: lobbySettings_def)
  note renamed = Recreate_merges_the_override [OF read, of renamedBody]
  from renamed [where nm = "''arcade''" and img = "''m1k1o/neko:chromium''"
      and mode = "''host''" and ls = "[(''team'', ''blue'')]"
      and rp = "\<lparr>patchCPUShares = Some 1024, patchMemory = None,
                   patchShmSize = Some 1000000000\<rparr>"
      and cpu = 1024 and shm = 1000000000]
  have second: "Name (decodeSettings renamedBody lobbySettings) = ''arcade''
      \<and> NekoImage (decodeSettings renamedBody lobbySettings) = ''m1k1o/neko:chromium''
      \<and> MaxConnections (decodeSettings renamedBody lobbySettings) = 10
      \<and> NetworkMode (decodeSettings renamedBody lobbySettings) = ''host''
      \<and> CPUShares (Resources (decodeSettings renamedBody lobbySettings)) = 1024
      \<and> Memory (Resources (decodeSettings renamedBody lobbySettings)) = 1000000000
      \<and> ShmSize (Resources (decodeSettings renamedBody lobbySettings)) = 1000000000
      \<and> map_of (RoomLabels (decodeSettings renamedBody lobbySettings))
        = [''app'' \<mapsto> ''neko'', ''team'' \<mapsto> ''blue'']"
    by (simp add: renamedBody_def lobbySettings_def)
  then have resources: "Resources (decodeSettings renamedBody lobbySettings)
      = \<lparr>CPUShares = 1024, Memory = 1000000000, ShmSize = 1000000000\<rparr>"
    by (cases "Resources (decodeSettings renamedBody lobbySettings)") simp
  note memory = Recreate_merges_the_override [OF read, of memoryBody]
  from memory [where rp = "\<lparr>patchCPUShares = None, patchMemory = Some 500000000,
      patchShmSize = None\<rparr>" and mem = 500000000]
  have "Name (decodeSettings memoryBody lobbySettings) = ''lobby''
      \<and> NekoImage (decodeSettings memoryBody lobbySettings) = ''m1k1o/neko:firefox''
      \<and> MaxConnections (decodeSettings memoryBody lobbySettings) = 10
      \<and> NetworkMode (decodeSettings memoryBody lobbySettings) = ''bridge''
      \<and> CPUShares (Resources (decodeSettings memoryBody lobbySettings)) = 512
      \<and> Memory (Resources (decodeSettings memoryBody lobbySettings)) = 500000000
      \<and> ShmSize (Resources (decodeSettings memoryBody lobbySettings)) = 2000000000
      \<and> RoomLabels (decodeSettings memoryBody lobbySettings) = [(''app'', ''neko'')]"
    by (simp add: memoryBody_def lobbySettings_def)
  then have third: "decodeSettings memoryBody lobbySettings
      = \<lparr>Name = ''lobby'', NekoImage = ''m1k1o/neko:firefox'', MaxConnections = 10,
         Resources = \<lparr>CPUShares = 512, Memory = 500000000, ShmSize = 2000000000\<rparr>,
         NetworkMode = ''bridge'', RoomLabels = [(''app'', ''neko'')]\<rparr>"
    by (cases "decodeSettings memoryBody lobbySettings";
        cases "Resources (decodeSettings memoryBody lobbySettings)") simp
  from handler example second resources third show ?thesis by simp
qed


text \<open>
  Claim C9. For every manager, \<open>POST /rooms\<close> with an empty body is answered with status
  400 and the text of \<open>io.EOF\<close>, and the manager is not called. \<open>POST /rooms/{id}/recreate\<close>
  with an empty body is never answered with status 400: when the entry and the stored
  settings are read, the handler goes on to remove and create the room with the stored
  settings.
\<close>

theorem empty_body_on_create_and_recreate:
  "roomCreate manager EmptyBody s = (HttpError 400 ''EOF'', s)
   \<and> fst (roomRecreate manager roomId EmptyBody s) \<noteq> HttpError 400 msg
   \<and> (rooms_GetEntry manager roomId s = (Inr entry, s1) \<longrightarrow>
        rooms_GetSettings manager roomId s1 = (Inr stored, s2) \<longrightarrow>
        roomRecreate manager roomId EmptyBody s = recreate manager entry roomId (Some stored) s2)"
proof (intro conjI)
  show "roomCreate manager EmptyBody s = (HttpError 400 ''EOF'', s)"
    by (simp add: roomCreate_def)
  show "fst (roomRecreate manager roomId EmptyBody s) \<noteq> HttpError 400 msg"
    by (simp add: roomRecreate_def recreate_def notFoundOr500_def
        split: prod.splits sum.splits option.splits)
  show "rooms_GetEntry manager roomId s = (Inr entry, s1) \<longrightarrow>
        rooms_GetSettings manager roomId s1 = (Inr stored, s2) \<longrightarrow>
        roomRecreate manager roomId EmptyBody s = recreate manager entry roomId (Some stored) s2"
    by (simp add: roomRecreate_def)
qed


text \<open>
  The two requests to the manager behind the handlers, the second for the stopped room
  \<open>r1\<close>: the first is refused and the manager is left as it was, the second replaces \<open>r1\<close>
  by a room with the stored settings.
\<close>

theorem empty_body_on_create_and_recreate_witness:
  "roomCreate (engineManager defaultConfig 11) EmptyBody (engineOf [lobby False])
     = (HttpError 400 ''EOF'', engineOf [lobby False])
   \<and> roomRecreate (engineManager defaultConfig 11) ''r1'' EmptyBody (engineOf [lobby False])
     = (Json \<lparr>ID = ''c0'', RoomSettings = lobbySettings, Running = False,
              PortRange = \<lparr>portStart = 59000, portEnd = 59010\<rparr>\<rparr>,
        \<lparr>rooms = [\<lparr>roomID = ''c0'', roomSettings = lobbySettings, roomRunning = False,
                    roomPorts = \<lparr>portStart = 59000, portEnd = 59010\<rparr>\<rparr>],
         counter = 1\<rparr>)"
proof -
  note empty = empty_body_on_create_and_recreate
    [where manager = "engineManager defaultConfig 11" and roomId = "''r1''"
       and s = "engineOf [lobby False]"
       and entry = "\<lparr>ID = ''r1'', RoomSettings = lobbySettings, Running = False,
                      PortRange = \<lparr>portStart = 59000, portEnd = 59010\<rparr>\<rparr>"
       and ?s1.0 = "engineOf [lobby False]"
       and stored = lobbySettings
       and ?s2.0 = "engineOf [lobby False]"]
  from empty have created:
    "roomCreate (engineManager defaultConfig 11) EmptyBody (engineOf [lobby False])
      = (HttpError 400 ''EOF'', engineOf [lobby False])"
    by blast
  from empty engineGetEntry_lobby [of False] engineGetSettings_lobby [of False]
  have "roomRecreate (engineManager defaultConfig 11) ''r1'' EmptyBody (engineOf [lobby False])
      = recreate (engineManager defaultConfig 11)
          \<lparr>ID = ''r1'', RoomSettings = lobbySettings, Running = False,
            PortRange = \<lparr>portStart = 59000, portEnd = 59010\<rparr>\<rparr> ''r1''
          (Some lobbySettings) (engineOf [lobby False])"
    by blast
  with created show ?thesis
    by (simp add: recreate_lobby [OF lobby_labels_valid])
qed


section \<open>Label filters of GET /rooms\<close>

lemma labelChar_ascii: "labelChar c \<Longrightarrow> (of_char c :: nat) < 128"
  by (auto simp: labelChar_def Let_def)

lemma upperChar_ascii: "upperChar c \<Longrightarrow> (of_char c :: nat) < 128"
  by (simp add: upperChar_def Let_def)

lemma upperChar_lower: "upperChar c \<Longrightarrow> labelChar (lowerChar c)"
  by (simp add: upperChar_def lowerChar_def labelChar_def Let_def take_bit_eq_mod)

lemma lowerChar_label: "labelChar c \<or> upperChar c \<Longrightarrow> labelChar (lowerChar c)"
proof (cases "upperChar c")
  case True
  then show ?thesis by (rule upperChar_lower)
next
  case False
  moreover assume "labelChar c \<or> upperChar c"
  ultimately show ?thesis by (simp add: lowerChar_def)
qed

lemma ToLower_letters:
  assumes "list_all (\<lambda>c. labelChar c \<or> upperChar c) key"
  shows "CheckLabelKey (ToLower mapUnicode key)"
proof -
  from assms have ascii: "isASCII key"
    by (auto simp: isASCII_def list_all_iff dest: labelChar_ascii upperChar_ascii)
  from assms have "list_all (\<lambda>c. labelChar (lowerChar c)) key"
    by (auto simp: list_all_iff intro: lowerChar_label)
  with ascii show ?thesis
    by (simp add: ToLower_def CheckLabelKey_def list_all_iff)
qed

lemma queryLabels_invalid:
  "(key, val) \<in> set query \<Longrightarrow> \<not> CheckLabelKey (ToLower mapUnicode key)
     \<Longrightarrow> \<forall>(k, v) \<in> set query. v \<noteq> []
     \<Longrightarrow> queryLabels mapUnicode query labelsMap = Inl (HttpError 400 invalidLabelName)"
proof (induction query arbitrary: labelsMap)
  case Nil
  then show ?case by simp
next
  case (Cons entry rest)
  obtain k v where entry: "entry = (k, v)" by (cases entry)
  show ?case
  proof (cases "CheckLabelKey (ToLower mapUnicode k)")
    case False
    then show ?thesis by (simp add: entry)
  next
    case True
    with Cons.prems entry have inRest: "(key, val) \<in> set rest" by auto
    from Cons.prems entry obtain x xs where v: "v = x # xs" by (cases v) auto
    from Cons.prems have valued: "\<forall>(k, v) \<in> set rest. v \<noteq> []" by simp
    from True Cons.IH [OF inRest Cons.prems(2) valued]
    show ?thesis by (simp add: entry v)
  qed
qed

lemma queryLabels_valid:
  "list_all (\<lambda>(key, val). CheckLabelKey (ToLower mapUnicode key)) query
     \<Longrightarrow> \<forall>(k, v) \<in> set query. v \<noteq> []
     \<Longrightarrow> queryLabels mapUnicode query labelsMap
          = Inr (fold (\<lambda>(key, val). AList.update (ToLower mapUnicode key) (hd val)) query
                   labelsMap)"
proof (induction query arbitrary: labelsMap)
  case Nil
  then show ?case by simp
next
  case (Cons entry rest)
  obtain k v where entry: "entry = (k, v)" by (cases entry)
  from Cons.prems entry obtain x xs where v: "v = x # xs" by (cases v) auto
  from Cons.prems have rest: "list_all (\<lambda>(key, val). CheckLabelKey (ToLower mapUnicode key)) rest"
    and valued: "\<forall>(k, v) \<in> set rest. v \<noteq> []"
    and valid: "CheckLabelKey (ToLower mapUnicode k)"
    by (simp_all add: entry)
  from Cons.IH [OF rest valued] valid show ?case
    by (simp add: entry v)
qed

lemma labels_of_query:
  "map_of (fold (\<lambda>(key, val). AList.update (lower key) (hd val)) query labelsMap)
     = map_of (rev (map (\<lambda>(key, val). (lower key, hd val)) query) @ labelsMap)"
proof (induction query arbitrary: labelsMap)
  case Nil
  then show ?case by simp
next
  case (Cons entry rest)
  obtain k v where entry: "entry = (k, v)" by (cases entry)
  show ?case
    by (simp add: entry Cons.IH update_conv' map_add_def fun_eq_iff split: option.splits)
qed

text \<open>
  Claim C8 says that \<open>List\<close> fails for every key that the validator rejects, a key with an
  uppercase letter among them. This fails: the validator rejects the key \<open>App\<close>, and the
  request \<open>GET /rooms?App=neko\<close> is answered with the list of the rooms whose label \<open>app\<close>
  is \<open>neko\<close>. The handler lower-cases a key before it validates it.
\<close>

theorem roomsList_uppercase_key_counterexample:
  "\<not> CheckLabelKey ''App''
   \<and> (\<forall>mapUnicode.
        roomsList mapUnicode (engineManager defaultConfig 11) [(''App'', [''neko''])]
            (engineOf [lobby True, arcade])
          = (Json [\<lparr>ID = ''r1'', RoomSettings = lobbySettings, Running = True,
                     PortRange = \<lparr>portStart = 59000, portEnd = 59010\<rparr>\<rparr>],
             engineOf [lobby True, arcade]))"
  by (simp add: CheckLabelKey_def labelChar_def ToLower_def isASCII_def lowerChar_def
      upperChar_def char_of_eq_iff roomsList_def engineManager_def engineList_def
      matchesLabels_def engineOf_def lobby_def arcade_def lobbySettings_def roomEntry_def)

text \<open>
  Claim C8 as amended: the handler validates the lower-cased form of a key. For every
  manager, every function that maps the strings that are not ASCII, and every query whose
  keys have a value, as in a parsed query string: if the lower-cased form of some key is
  rejected by the validator, \<open>roomsList\<close> answers with status 400 and the state is the one
  it started in, so that the manager, and with it the runtime, is not called; if the
  lower-cased form of every key passes, the manager is asked once for the list, with the
  filter that maps the lower-cased form of each key to the first value of the key (of the
  key visited last, when several keys have the same lower-cased form). A key made of the
  characters \<open>[a-z0-9.-]\<close> and of uppercase ASCII letters passes in its lower-cased form:
  uppercase letters alone do not make the request fail.
\<close>

theorem roomsList_validates_lower_cased_keys:
  assumes "\<forall>(key, val) \<in> set query. val \<noteq> []"
  shows "(list_ex (\<lambda>(key, val). \<not> CheckLabelKey (ToLower mapUnicode key)) query \<longrightarrow>
            roomsList mapUnicode manager query s
              = (HttpError 400 ''invalid label name, allowed characters: [a-z0-9.-]'', s))
       \<and> (list_all (\<lambda>(key, val). CheckLabelKey (ToLower mapUnicode key)) query \<longrightarrow>
            roomsList mapUnicode manager query s =
              (case rooms_List manager
                      (fold (\<lambda>(key, val). AList.update (ToLower mapUnicode key) (hd val))
                         query []) s of
                 (Inl err, s') \<Rightarrow> (HttpError 500 (errorText err), s')
               | (Inr response, s') \<Rightarrow> (Json response, s')))
       \<and> map_of (fold (\<lambda>(key, val). AList.update (ToLower mapUnicode key) (hd val)) query [])
           = map_of (rev (map (\<lambda>(key, val). (ToLower mapUnicode key, hd val)) query))
       \<and> (list_all (\<lambda>c. labelChar c \<or> upperChar c) key \<longrightarrow>
            CheckLabelKey (ToLower mapUnicode key))"
proof (intro conjI impI)
  assume "list_ex (\<lambda>(key, val). \<not> CheckLabelKey (ToLower mapUnicode key)) query"
  then obtain k v where member: "(k, v) \<in> set query"
    and rejected: "\<not> CheckLabelKey (ToLower mapUnicode k)"
    by (auto simp: list_ex_iff)
  have "queryLabels mapUnicode query [] = (Inl (HttpError 400 invalidLabelName)
      :: RoomData list response + (string \<times> string) list)"
    using member rejected assms by (rule queryLabels_invalid)
  then show "roomsList mapUnicode manager query s
      = (HttpError 400 ''invalid label name, allowed characters: [a-z0-9.-]'', s)"
    by (simp add: roomsList_def invalidLabelName_def)
next
  assume "list_all (\<lambda>(key, val). CheckLabelKey (ToLower mapUnicode key)) query"
  then have "queryLabels mapUnicode query []
      = (Inr (fold (\<lambda>(key, val). AList.update (ToLower mapUnicode key) (hd val)) query [])
         :: RoomData list response + (string \<times> string) list)"
    using assms by (rule queryLabels_valid)
  then show "roomsList mapUnicode manager query s =
      (case rooms_List manager
              (fold (\<lambda>(key, val). AList.update (ToLower mapUnicode key) (hd val)) query []) s of
         (Inl err, s') \<Rightarrow> (HttpError 500 (errorText err), s')
       | (Inr response, s') \<Rightarrow> (Json response, s'))"
    by (simp add: roomsList_def)
next
  show "map_of (fold (\<lambda>(key, val). AList.update (ToLower mapUnicode key) (hd val)) query [])
      = map_of (rev (map (\<lambda>(key, val). (ToLower mapUnicode key, hd val)) query))"
    using labels_of_query [of "ToLower mapUnicode" query "[]"] by simp
next
  assume "list_all (\<lambda>c. labelChar c \<or> upperChar c) key"
  then show "CheckLabelKey (ToLower mapUnicode key)"
    by (rule ToLower_letters)
qed

text \<open>
  Two requests to the manager behind the handlers, which holds two running rooms.
  \<open>GET /rooms?app=neko&my key=x\<close>: the space is rejected, and the manager is left as it
  was. \<open>GET /rooms?APP=arcade\<close>: the key passes as \<open>app\<close>, and the answer is the room whose
  label \<open>app\<close> is \<open>arcade\<close>.
\<close>

theorem roomsList_validates_lower_cased_keys_witness:
  "roomsList (\<lambda>key. key) (engineManager defaultConfig 11)
       [(''app'', [''neko'']), (''my key'', [''x''])] (engineOf [lobby True, arcade])
     = (HttpError 400 ''invalid label name, allowed characters: [a-z0-9.-]'',
        engineOf [lobby True, arcade])
   \<and> roomsList (\<lambda>key. key) (engineManager defaultConfig 11)
       [(''APP'', [''arcade''])] (engineOf [lobby True, arcade])
     = (Json [\<lparr>ID = ''r2'',
                RoomSettings =
                  lobbySettings\<lparr>Name := ''arcade'', RoomLabels := [(''app'', ''arcade'')]\<rparr>,
                Running = True,
                PortRange = \<lparr>portStart = 59011, portEnd = 59021\<rparr>\<rparr>],
        engineOf [lobby True, arcade])
   \<and> map_of (fold (\<lambda>(key, val). AList.update (ToLower (\<lambda>key. key) key) (hd val))
               [(''APP'', [''arcade''])] [])
     = [''app'' \<mapsto> ''arcade'']
   \<and> CheckLabelKey (ToLower (\<lambda>key. key) ''APP'')"
proof -
  have lowered: "ToLower (\<lambda>key. key) ''APP'' = ''app''" "ToLower (\<lambda>key. key) ''app'' = ''app''"
    "ToLower (\<lambda>key. key) ''my key'' = ''my key''"
    by (simp_all add: ToLower_def isASCII_def lowerChar_def upperChar_def char_of_eq_iff)
  have valued: "\<forall>(key, val) \<in> set [(''app'', [''neko'']), (''my key'', [''x''])]. val \<noteq> []"
    "\<forall>(key, val) \<in> set [(''APP'', [''arcade''])]. val \<noteq> []"
    by simp_all
  note rejected = roomsList_validates_lower_cased_keys
    [OF valued(1), where mapUnicode = "\<lambda>key. key"
       and manager = "engineManager defaultConfig 11" and s = "engineOf [lobby True, arcade]"
       and key = "''APP''"]
  note passed = roomsList_validates_lower_cased_keys
    [OF valued(2), where mapUnicode = "\<lambda>key. key"
       and manager = "engineManager defaultConfig 11" and s = "engineOf [lobby True, arcade]"
       and key = "''APP''"]
  from rejected have first:
    "roomsList (\<lambda>key. key) (engineManager defaultConfig 11)
        [(''app'', [''neko'']), (''my key'', [''x''])] (engineOf [lobby True, arcade])
      = (HttpError 400 ''invalid label name, allowed characters: [a-z0-9.-]'',
         engineOf [lobby True, arcade])"
    by (simp add: lowered CheckLabelKey_def labelChar_def)
  from passed have second:
    "roomsList (\<lambda>key. key) (engineManager defaultConfig 11)
        [(''APP'', [''arcade''])] (engineOf [lobby True, arcade])
      = (Json [\<lparr>ID = ''r2'',
                 RoomSettings =
                   lobbySettings\<lparr>Name := ''arcade'', RoomLabels := [(''app'', ''arcade'')]\<rparr>,
                 Running = True,
                 PortRange = \<lparr>portStart = 59011, portEnd = 59021\<rparr>\<rparr>],
         engineOf [lobby True, arcade])"
    by (simp add: lowered CheckLabelKey_def labelChar_def engineManager_def engineList_def
        matchesLabels_def engineOf_def lobby_def arcade_def lobbySettings_def roomEntry_def)
  from passed have third:
    "map_of (fold (\<lambda>(key, val). AList.update (ToLower (\<lambda>key. key) key) (hd val))
               [(''APP'', [''arcade''])] [])
      = [''app'' \<mapsto> ''arcade'']"
    by (simp add: lowered)
  from passed have fourth: "CheckLabelKey (ToLower (\<lambda>key. key) ''APP'')"
    by (simp add: labelChar_def upperChar_def)
  from first second third fourth show ?thesis by blast
qed


end
